theory Spec2Isabelle
  imports Main
begin

chapter \<open>The pseudoterminal sessions of obsidian-terminal\<close>

text \<open>
  A shallow embedding of \<^verbatim>\<open>src/sources/terminal/pseudoterminal.ts\<close> and of the resize
  debouncer of the display-surface adapter (\<^verbatim>\<open>asyncDebounce\<close>, \<^verbatim>\<open>XtermTerminalEmulator\<close>).
  Objects with identity live in an explicit store and are named by addresses; every
  operation takes the store and returns it updated. An \<^verbatim>\<open>async\<close> method is modelled by
  its effect once the microtask queue has drained, so one call is one step.
\<close>

section \<open>Values shared by every session\<close>

text \<open>\<^verbatim>\<open>NodeJS.Signals | number\<close>, the value of an exit future.\<close>

datatype exit_value = ExitCode int | ExitSignal string | ExitNaN

text \<open>What JavaScript code throws; \<^verbatim>\<open>SyntaxError\<close> and \<^verbatim>\<open>TypeError\<close> are told apart
  by \<^verbatim>\<open>instanceof\<close> in the source.\<close>

datatype error = Error string | TypeError string | SyntaxError string

text \<open>\<^verbatim>\<open>AsyncOrSync<void>\<close>: the call returns \<^verbatim>\<open>undefined\<close>, or it throws (rejects).\<close>

datatype outcome = Done | Thrown error

text \<open>A promise settles at most once: \<^verbatim>\<open>resolve\<close> and \<^verbatim>\<open>reject\<close> on a settled
  promise do nothing.\<close>

datatype 'a promise = Pending | Resolved 'a | Rejected error

definition resolve :: "'a \<Rightarrow> 'a promise \<Rightarrow> 'a promise" where
  "resolve v p = (case p of Pending \<Rightarrow> Resolved v | _ \<Rightarrow> p)"

definition reject :: "error \<Rightarrow> 'a promise \<Rightarrow> 'a promise" where
  "reject e p = (case p of Pending \<Rightarrow> Rejected e | _ \<Rightarrow> p)"

text \<open>The two callbacks of \<^verbatim>\<open>delegate.onExit.then(ret => resolve(ret), error => reject(error))\<close>,
  run with the outcome \<open>src\<close> of the delegate's exit future.\<close>

definition forward :: "'a promise \<Rightarrow> 'a promise \<Rightarrow> 'a promise" where
  "forward src p = (case src of Pending \<Rightarrow> p | Resolved v \<Rightarrow> resolve v p | Rejected e \<Rightarrow> reject e p)"

text \<open>Modelled from the spec: \<^verbatim>\<open>EXIT_SUCCESS\<close> of \<^verbatim>\<open>magic.js\<close> (not among the sources),
  the "synthetic success code".\<close>

definition EXIT_SUCCESS :: exit_value where
  "EXIT_SUCCESS = ExitCode 0"

section \<open>The reference-counted wrapper \<^verbatim>\<open>RefPsuedoterminal\<close>\<close>

text \<open>
  The delegate is any \<^verbatim>\<open>Pseudoterminal\<close>. It is modelled by what the wrapper can see of it:
  its exit future, the callbacks subscribed to that future, whether it defines
  \<^verbatim>\<open>resize\<close>, what its methods answer, and the calls it has received.
\<close>

datatype delegate_call = KillCall | PipeCall nat | ResizeCall int int

record delegate =
  d_onExit :: "exit_value promise"
  d_listeners :: "nat list"
  d_resize :: "outcome option"
  d_kill :: outcome
  d_pipe :: outcome
  d_calls :: "delegate_call list"

text \<open>A wrapper object: its identity (under which its \<^verbatim>\<open>#exit\<close> promise is stored), and its
  two readonly fields, the address of the delegate and the address of the shared
  one-element array \<^verbatim>\<open>#ref\<close>.\<close>

record ref_pty =
  r_id :: nat
  r_delegate :: nat
  r_ref :: nat

record heap =
  delegates :: "nat \<Rightarrow> delegate"
  cells :: "nat \<Rightarrow> int"
  next_cell :: nat
  exits :: "nat \<Rightarrow> exit_value promise"
  next_wrapper :: nat

text \<open>The constructor takes another wrapper or a session.\<close>

datatype ctor_arg = Wrapper ref_pty | Session nat

definition subscribe :: "nat \<Rightarrow> nat \<Rightarrow> heap \<Rightarrow> heap" where
  "subscribe d i h =
     (let dl = delegates h d in
      h\<lparr>delegates := (delegates h)(d := dl\<lparr>d_listeners := d_listeners dl @ [i]\<rparr>),
        exits := (exits h)(i := forward (d_onExit dl) (exits h i))\<rparr>)"

definition RefPsuedoterminal_new :: "ctor_arg \<Rightarrow> heap \<Rightarrow> ref_pty \<times> heap" where
  "RefPsuedoterminal_new arg h =
     (let i = next_wrapper h;
          h1 = h\<lparr>exits := (exits h)(i := Pending), next_wrapper := Suc i\<rparr>;
          (d, c, h2) =
            (case arg of
               Wrapper w \<Rightarrow> (r_delegate w, r_ref w, h1)
             | Session s \<Rightarrow>
                 (s, next_cell h1,
                  h1\<lparr>cells := (cells h1)(next_cell h1 := 0), next_cell := Suc (next_cell h1)\<rparr>));
          h3 = subscribe d i h2;
          h4 = h3\<lparr>cells := (cells h3)(c := cells h3 c + 1)\<rparr>
      in (\<lparr>r_id = i, r_delegate = d, r_ref = c\<rparr>, h4))"

definition RefPsuedoterminal_dup :: "ref_pty \<Rightarrow> heap \<Rightarrow> ref_pty \<times> heap" where
  "RefPsuedoterminal_dup w h = RefPsuedoterminal_new (Wrapper w) h"

definition delegate_call :: "nat \<Rightarrow> delegate_call \<Rightarrow> heap \<Rightarrow> heap" where
  "delegate_call d c h =
     h\<lparr>delegates := (delegates h)(d := (delegates h d)\<lparr>d_calls := d_calls (delegates h d) @ [c]\<rparr>)\<rparr>"

definition RefPsuedoterminal_kill :: "ref_pty \<Rightarrow> heap \<Rightarrow> outcome \<times> heap" where
  "RefPsuedoterminal_kill w h =
     (let n = cells h (r_ref w) - 1;
          h1 = h\<lparr>cells := (cells h)(r_ref w := n)\<rparr>
      in if n \<le> 0
         then (d_kill (delegates h1 (r_delegate w)), delegate_call (r_delegate w) KillCall h1)
         else (Done, h1\<lparr>exits := (exits h1)(r_id w := resolve EXIT_SUCCESS (exits h1 (r_id w)))\<rparr>))"

definition RefPsuedoterminal_pipe :: "ref_pty \<Rightarrow> nat \<Rightarrow> heap \<Rightarrow> outcome \<times> heap" where
  "RefPsuedoterminal_pipe w t h =
     (d_pipe (delegates h (r_delegate w)), delegate_call (r_delegate w) (PipeCall t) h)"

definition RefPsuedoterminal_resize :: "ref_pty \<Rightarrow> int \<Rightarrow> int \<Rightarrow> heap \<Rightarrow> outcome \<times> heap" where
  "RefPsuedoterminal_resize w columns rows h =
     (case d_resize (delegates h (r_delegate w)) of
        Some r \<Rightarrow> (r, delegate_call (r_delegate w) (ResizeCall columns rows) h)
      | None \<Rightarrow> (Done, h))"

text \<open>The delegate's exit future settles with \<open>p\<close> (an event of the environment): every
  subscribed callback runs.\<close>

definition notify :: "exit_value promise \<Rightarrow> nat \<Rightarrow> heap \<Rightarrow> heap" where
  "notify p i h = h\<lparr>exits := (exits h)(i := forward p (exits h i))\<rparr>"

definition delegate_settles :: "nat \<Rightarrow> exit_value promise \<Rightarrow> heap \<Rightarrow> heap" where
  "delegate_settles d p h =
     (let dl = delegates h d in
      if d_onExit dl \<noteq> Pending \<or> p = Pending then h
      else fold (notify p) (d_listeners dl)
             (h\<lparr>delegates := (delegates h)(d := dl\<lparr>d_onExit := p\<rparr>)\<rparr>))"

text \<open>Call sequences: \<open>dup_all\<close> runs one \<^verbatim>\<open>dup()\<close> per entry of the script, each on a
  wrapper obtained so far (chosen by the entry), and collects the wrappers; \<open>kill_all\<close>
  calls \<^verbatim>\<open>kill()\<close> on the listed wrappers in order.\<close>

fun dup_all :: "nat list \<Rightarrow> ref_pty list \<Rightarrow> heap \<Rightarrow> ref_pty list \<times> heap" where
  "dup_all [] ws h = (ws, h)"
| "dup_all (k # ks) ws h =
     (case RefPsuedoterminal_dup (ws ! (k mod length ws)) h of
        (w, h') \<Rightarrow> dup_all ks (ws @ [w]) h')"

fun kill_all :: "ref_pty list \<Rightarrow> heap \<Rightarrow> heap" where
  "kill_all [] h = h"
| "kill_all (w # ws) h = kill_all ws (snd (RefPsuedoterminal_kill w h))"

definition real_kills :: "nat \<Rightarrow> heap \<Rightarrow> nat" where
  "real_kills d h = length (filter (\<lambda>c. c = KillCall) (d_calls (delegates h d)))"

text \<open>A store with no wrapper yet, whose sessions are live, define no \<^verbatim>\<open>resize\<close> and
  have received no call.\<close>

definition fresh_delegate :: delegate where
  "fresh_delegate =
     \<lparr>d_onExit = Pending, d_listeners = [], d_resize = None, d_kill = Done, d_pipe = Done,
      d_calls = []\<rparr>"

definition heap0 :: heap where
  "heap0 =
     \<lparr>delegates = (\<lambda>_. fresh_delegate), cells = (\<lambda>_. 0), next_cell = 0,
      exits = (\<lambda>_. Pending), next_wrapper = 0\<rparr>"

text \<open>Every operation on the store, as one step; a run is a list of steps.\<close>

datatype ref_op =
    New ctor_arg | Kill ref_pty | Pipe ref_pty nat | Resize ref_pty int int
  | Settles nat "exit_value promise"

fun ref_step :: "ref_op \<Rightarrow> heap \<Rightarrow> heap" where
  "ref_step (New arg) h = snd (RefPsuedoterminal_new arg h)"
| "ref_step (Kill w) h = snd (RefPsuedoterminal_kill w h)"
| "ref_step (Pipe w t) h = snd (RefPsuedoterminal_pipe w t h)"
| "ref_step (Resize w columns rows) h = snd (RefPsuedoterminal_resize w columns rows h)"
| "ref_step (Settles d p) h = delegate_settles d p h"

text \<open>A concrete run: \<^verbatim>\<open>w0 = new RefPsuedoterminal(session)\<close>, then \<^verbatim>\<open>w1 = w0.dup()\<close>.\<close>

definition ref_w0 :: ref_pty where
  "ref_w0 = fst (RefPsuedoterminal_new (Session 0) heap0)"

definition ref_h1 :: heap where
  "ref_h1 = snd (RefPsuedoterminal_new (Session 0) heap0)"

definition ref_w1 :: ref_pty where
  "ref_w1 = fst (RefPsuedoterminal_dup ref_w0 ref_h1)"

definition ref_h2 :: heap where
  "ref_h2 = snd (RefPsuedoterminal_dup ref_w0 ref_h1)"

text \<open>The same store, with a session that defines \<^verbatim>\<open>resize\<close>.\<close>

definition ref_h2r :: heap where
  "ref_h2r = ref_h2\<lparr>delegates := (delegates ref_h2)(0 := (delegates ref_h2 0)\<lparr>d_resize := Some Done\<rparr>)\<rparr>"

section \<open>The display surface\<close>

text \<open>
  The xterm \<^verbatim>\<open>Terminal\<close>, as far as a session touches it: the addons loaded into it, the
  listeners registered on it and what was written to it. \<^verbatim>\<open>DisposerAddon\<close>
  (\<^verbatim>\<open>emulator-addons.js\<close>) is named by the callback it carries. The escape sequences
  come from \<^verbatim>\<open>ansi-escape-sequences\<close>, \<^verbatim>\<open>normalizeText\<close> and \<^verbatim>\<open>CursoredText\<close>, none of
  them among the sources, so a write is recorded by what it draws.
\<close>

datatype disposer = RemoveTerminal | ResetEditor

datatype addon = DisposerAddon disposer

datatype listener = OnData | OnKey | OnResize

datatype screen_write = ClearScreen | NormalizedText string | LogReplay | BufferRedraw

record terminal =
  t_id :: nat
  t_addons :: "addon list"
  t_listeners :: "listener list"
  t_written :: "screen_write list"

section \<open>\<^verbatim>\<open>PseudoPseudoterminal\<close> and its two subclasses\<close>

text \<open>
  The abstract class; the subclasses extend the record. \<open>p_exit\<close> is the promise that
  \<^verbatim>\<open>#exit\<close> hands out, which \<^verbatim>\<open>kill\<close> resolves; \<open>p_onExit\<close> is the public \<^verbatim>\<open>onExit\<close>, the end
  of the chain \<^verbatim>\<open>#exit.then(...).finally(...).finally(...)\<close>. \<^verbatim>\<open>kill()\<close> does no more than
  resolve the first. The two \<^verbatim>\<open>finally\<close> callbacks, which set \<open>exited\<close> and clear
  \<open>terminals\<close>, run later, in microtasks of their own, and \<^verbatim>\<open>onExit\<close> settles after them:
  that is the step \<open>onExit_settles\<close>, and a call made after \<^verbatim>\<open>kill()\<close> has returned and
  before it meets a session whose flag is not set yet.
\<close>

record pseudo_pty =
  p_exit :: "exit_value promise"
  p_onExit :: "exit_value promise"
  exited :: bool
  terminals :: "nat list"

definition PseudoPseudoterminal_kill :: "'a pseudo_pty_scheme \<Rightarrow> 'a pseudo_pty_scheme" where
  "PseudoPseudoterminal_kill s = s\<lparr>p_exit := resolve EXIT_SUCCESS (p_exit s)\<rparr>"

definition finally_exited :: "'a pseudo_pty_scheme \<Rightarrow> 'a pseudo_pty_scheme" where
  "finally_exited s = s\<lparr>exited := True\<rparr>"

definition finally_clear :: "'a pseudo_pty_scheme \<Rightarrow> 'a pseudo_pty_scheme" where
  "finally_clear s = s\<lparr>terminals := []\<rparr>"

definition onExit_settles :: "'a pseudo_pty_scheme \<Rightarrow> 'a pseudo_pty_scheme" where
  "onExit_settles s =
     (if p_exit s = Pending \<or> p_onExit s \<noteq> Pending then s
      else (finally_clear (finally_exited s))\<lparr>p_onExit := p_exit s\<rparr>)"

definition PseudoPseudoterminal_pipe ::
  "terminal \<Rightarrow> 'a pseudo_pty_scheme \<Rightarrow> outcome \<times> terminal \<times> 'a pseudo_pty_scheme" where
  "PseudoPseudoterminal_pipe t s =
     (if exited s then (Thrown (Error []), t, s)
      else (Done,
            t\<lparr>t_addons := t_addons t @ [DisposerAddon RemoveTerminal]\<rparr>,
            s\<lparr>terminals := terminals s @ [t_id t]\<rparr>))"

text \<open>\<^verbatim>\<open>TextPseudoterminal\<close>. \<open>acquired\<close> is what \<^verbatim>\<open>lock.acquire\<close> answers: the lock's queue is
  bounded (\<^verbatim>\<open>maxPending\<close>), and a full queue rejects.\<close>

record text_pty = pseudo_pty +
  t_text :: string

definition TextPseudoterminal_rewrite ::
  "outcome \<Rightarrow> string \<Rightarrow> terminal \<Rightarrow> outcome \<times> terminal" where
  "TextPseudoterminal_rewrite acquired txt t =
     (case acquired of
        Thrown e \<Rightarrow> (Thrown e, t)
      | Done \<Rightarrow> (Done, t\<lparr>t_written := t_written t @ [ClearScreen, NormalizedText txt]\<rparr>))"

definition TextPseudoterminal_pipe ::
  "outcome \<Rightarrow> terminal \<Rightarrow> text_pty \<Rightarrow> outcome \<times> terminal \<times> text_pty" where
  "TextPseudoterminal_pipe acquired t s =
     (case PseudoPseudoterminal_pipe t s of
        (Thrown e, t1, s1) \<Rightarrow> (Thrown e, t1, s1)
      | (Done, t1, s1) \<Rightarrow>
          (case TextPseudoterminal_rewrite acquired (t_text s1) t1 of
             (r, t2) \<Rightarrow> (r, t2, s1)))"

text \<open>Values that reach \<^verbatim>\<open>self.console\<close>, and its calls.\<close>

datatype js_value = JsUndefined | JsNumber int | JsString string | JsArray "js_value list"

datatype console_event =
  ConsoleLog js_value | ConsoleError error | ConsoleDebug error | ConsoleWarn error

text \<open>Modelled from the spec: the edit buffer \<^verbatim>\<open>TerminalTextArea\<close> of \<^verbatim>\<open>util.js\<close> (not
  among the sources), "cursor-aware text state", is the field \<open>buffer\<close>, its string, which
  \<^verbatim>\<open>clear\<close> empties and \<^verbatim>\<open>setValue\<close> replaces. The other fields are those of
  \<^verbatim>\<open>DeveloperConsolePseudoterminal\<close>: \<open>editors\<close> holds the keys of \<^verbatim>\<open>#editors\<close>, \<open>console\<close>
  collects the calls to \<^verbatim>\<open>self.console\<close>.\<close>

record dev_console = pseudo_pty +
  history :: "string list"
  historyIndex :: int
  buffer :: string
  editors :: "nat list"
  console :: "console_event list"

definition DeveloperConsolePseudoterminal_write ::
  "outcome \<Rightarrow> terminal \<Rightarrow> dev_console \<Rightarrow> outcome \<times> terminal \<times> dev_console" where
  "DeveloperConsolePseudoterminal_write acquired t s =
     (case acquired of
        Thrown e \<Rightarrow> (Thrown e, t, s)
      | Done \<Rightarrow>
          (Done,
           t\<lparr>t_written := t_written t @ [LogReplay, BufferRedraw]\<rparr>,
           s\<lparr>editors := (if t_id t \<in> set (editors s) then editors s else editors s @ [t_id t])\<rparr>))"

definition DeveloperConsolePseudoterminal_pipe ::
  "outcome \<Rightarrow> terminal \<Rightarrow> dev_console \<Rightarrow> outcome \<times> terminal \<times> dev_console" where
  "DeveloperConsolePseudoterminal_pipe acquired t s =
     (case PseudoPseudoterminal_pipe t s of
        (Thrown e, t1, s1) \<Rightarrow> (Thrown e, t1, s1)
      | (Done, t1, s1) \<Rightarrow>
          DeveloperConsolePseudoterminal_write acquired
            (t1\<lparr>t_addons := t_addons t1 @ [DisposerAddon ResetEditor],
                t_listeners := t_listeners t1 @ [OnData, OnKey, OnResize]\<rparr>)
            s1)"

subsection \<open>JavaScript helpers\<close>

text \<open>The decimal digits of an integer: what the engine's \<^verbatim>\<open>Number::toString\<close> prints for an
  integral number of magnitude below \<open>10\<^sup>2\<^sup>1\<close>, such as \<open>80\<close>, \<open>24\<close> or a 32-bit error level,
  and what the command interpreter prints for \<^verbatim>\<open>%ERRORLEVEL%\<close>.\<close>

definition digit_char :: "nat \<Rightarrow> char" where
  "digit_char d = char_of (of_char (CHR ''0'') + d)"

fun digits :: "nat \<Rightarrow> string" where
  "digits n = (if n < 10 then [digit_char n] else digits (n div 10) @ [digit_char (n mod 10)])"

declare digits.simps [simp del]

definition js_toString :: "int \<Rightarrow> string" where
  "js_toString n = (if n < 0 then CHR ''-'' # digits (nat (- n)) else digits (nat n))"

text \<open>\<^verbatim>\<open>Array.prototype.at\<close>: a negative index counts from the end, an index out of range
  gives \<^verbatim>\<open>undefined\<close>.\<close>

definition js_at :: "'a list \<Rightarrow> int \<Rightarrow> 'a option" where
  "js_at xs i =
     (let n = int (length xs); k = (if i < 0 then n + i else i)
      in if 0 \<le> k \<and> k < n then Some (xs ! nat k) else None)"

text \<open>The remainder operator \<^verbatim>\<open>%\<close>, which truncates: the result has the sign of the
  dividend.\<close>

definition js_rem :: "int \<Rightarrow> int \<Rightarrow> int" where
  "js_rem a n = sgn a * (\<bar>a\<bar> mod \<bar>n\<bar>)"

definition LF :: char where
  "LF = CHR 0x0A"

definition includes_newline :: "string \<Rightarrow> bool" where
  "includes_newline s = (LF \<in> set s)"

subsection \<open>History navigation\<close>

text \<open>The \<^verbatim>\<open>ArrowUp\<close>/\<^verbatim>\<open>ArrowDown\<close> case of the \<^verbatim>\<open>onKey\<close> handler. \<open>acquired\<close> is what
  \<^verbatim>\<open>lock.acquire\<close> answers; a rejection goes to \<^verbatim>\<open>logError\<close>. No other task runs between
  the check outside the lock and the one inside.\<close>

datatype arrow = ArrowUp | ArrowDown

definition last_entry :: "string list \<Rightarrow> string" where
  "last_entry h = (case js_at h (- 1) of Some e \<Rightarrow> e | None \<Rightarrow> [])"

definition DeveloperConsolePseudoterminal_navigate ::
  "outcome \<Rightarrow> arrow \<Rightarrow> dev_console \<Rightarrow> dev_console" where
  "DeveloperConsolePseudoterminal_navigate acquired k s =
     (if includes_newline (last_entry (history s)) then s
      else case acquired of
        Thrown e \<Rightarrow> s\<lparr>console := console s @ [ConsoleError e]\<rparr>
      | Done \<Rightarrow>
          (if includes_newline (last_entry (history s)) then s
           else let n = int (length (history s)) in
             if n \<le> 0 then s
             else let i = js_rem (historyIndex s + (if k = ArrowDown then 1 else - 1)) n;
                      s1 = s\<lparr>historyIndex := i\<rparr>
                  in case js_at (history s) i of
                       None \<Rightarrow> s1
                     | Some e \<Rightarrow> s1\<lparr>buffer := e\<rparr>))"

subsection \<open>Evaluation\<close>

text \<open>
  The parser (acorn) and the scripting context (the \<^verbatim>\<open>AsyncFunction\<close> constructor) are
  collaborators outside the repository: \<open>parse\<close> answers a syntax error or the statements
  of the program, each with its offset and location; \<open>run script deletions\<close> answers
  what evaluating the script throws or returns; \<open>str\<close> is the engine's \<^verbatim>\<open>String(value)\<close>.
\<close>

record position =
  pos_line :: nat
  pos_column :: nat

record stmt =
  st_start :: nat
  st_loc_start :: position
  st_loc_end :: position

definition codeRet_of :: "string \<Rightarrow> stmt option \<Rightarrow> string" where
  "codeRet_of code lastStmt =
     (case lastStmt of
        Some st \<Rightarrow> take (st_start st) code @ ''return [('' @ drop (st_start st) code @ '')]''
      | None \<Rightarrow> [])"

definition codeRetDeletions_of :: "stmt option \<Rightarrow> position list" where
  "codeRetDeletions_of lastStmt =
     (case lastStmt of
        None \<Rightarrow> []
      | Some st \<Rightarrow>
          (let b = st_loc_start st; e = st_loc_end st;
               c = (if pos_line b \<noteq> pos_line e then 0 else length ''return [('')
           in map (\<lambda>k. \<lparr>pos_line = pos_line b, pos_column = pos_column b + k\<rparr>)
                  [0..<length ''return [('']
              @ map (\<lambda>k. \<lparr>pos_line = pos_line e, pos_column = pos_column e + (c + k)\<rparr>)
                  [0..<length '')]'']))"

text \<open>The inner closure of \<^verbatim>\<open>eval\<close>: the console calls it makes, and its result
  \<^verbatim>\<open>[] | [unknown] | null\<close> (\<open>None\<close> is \<^verbatim>\<open>null\<close>).\<close>

definition evaluate_direct ::
  "(string \<Rightarrow> position list \<Rightarrow> error + js_value) \<Rightarrow> string \<Rightarrow>
     console_event list \<times> js_value list option" where
  "evaluate_direct run code =
     (case run code [] of
        Inr _ \<Rightarrow> ([], Some [])
      | Inl e \<Rightarrow> ([ConsoleError e], None))"

definition evaluate_both ::
  "(string \<Rightarrow> position list \<Rightarrow> error + js_value) \<Rightarrow> (js_value \<Rightarrow> string) \<Rightarrow>
     string \<Rightarrow> string \<Rightarrow> position list \<Rightarrow> console_event list \<times> js_value list option" where
  "evaluate_both run str code codeRet deletions =
     (if codeRet \<noteq> [] then
        (case run codeRet deletions of
           Inr (JsArray [v]) \<Rightarrow> ([], Some [v])
         | Inr ret2 \<Rightarrow> ([ConsoleError (Error (str ret2))], None)
         | Inl (SyntaxError m) \<Rightarrow>
             (case evaluate_direct run code of
                (evs, r) \<Rightarrow> (ConsoleDebug (SyntaxError m) # evs, r))
         | Inl e \<Rightarrow> ([ConsoleError e], None))
      else evaluate_direct run code)"

text \<open>\<^verbatim>\<open>ret[0]\<close> of the result: \<^verbatim>\<open>undefined\<close> for the empty array.\<close>

definition first_or_undefined :: "js_value list \<Rightarrow> js_value" where
  "first_or_undefined r = (case r of [] \<Rightarrow> JsUndefined | v # _ \<Rightarrow> v)"

definition DeveloperConsolePseudoterminal_eval ::
  "outcome \<Rightarrow> (string \<Rightarrow> error + stmt list) \<Rightarrow>
     (string \<Rightarrow> position list \<Rightarrow> error + js_value) \<Rightarrow> (js_value \<Rightarrow> string) \<Rightarrow>
     dev_console \<Rightarrow> outcome \<times> dev_console" where
  "DeveloperConsolePseudoterminal_eval acquired parse run str s =
     (case acquired of
        Thrown e \<Rightarrow> (Thrown e, s)
      | Done \<Rightarrow>
          (let code = buffer s;
               n = length (history s);
               s1 = s\<lparr>buffer := [],
                      history := take (n - 1) (history s) @ [code, []],
                      historyIndex := int n\<rparr>;
               s2 = s1\<lparr>console := console s1 @ [ConsoleLog (JsString code)]\<rparr>
           in case parse code of
                Inl e \<Rightarrow> (Done, s2\<lparr>console := console s2 @ [ConsoleError e]\<rparr>)
              | Inr body \<Rightarrow>
                  (let lastStmt = (if body = [] then None else Some (last body))
                   in case evaluate_both run str code (codeRet_of code lastStmt)
                             (codeRetDeletions_of lastStmt) of
                        (evs, None) \<Rightarrow> (Done, s2\<lparr>console := console s2 @ evs\<rparr>)
                      | (evs, Some r) \<Rightarrow>
                          (Done, s2\<lparr>console := console s2 @ evs
                                        @ [ConsoleLog (first_or_undefined r)]\<rparr>))))"

text \<open>A console with the history \<^verbatim>\<open>["a", "b", ""]\<close> and the index on the open entry; and
  the collaborators' answers on the programs of the examples: \<^verbatim>\<open>1+1\<close>, \<^verbatim>\<open>1+1;\<close> and
  \<^verbatim>\<open>let x = 1\<close> are one statement each, which starts at offset 0 and, for \<^verbatim>\<open>1+1;\<close>, takes
  the semicolon in; \<^verbatim>\<open>return [(1+1;)]\<close> and \<^verbatim>\<open>return [(let x = 1)]\<close> are syntax errors.\<close>

definition console0 :: dev_console where
  "console0 =
     \<lparr>p_exit = Pending, p_onExit = Pending, exited = False, terminals = [],
      history = [''a'', ''b'', []], historyIndex = 2, buffer = [], editors = [], console = []\<rparr>"

definition one_stmt :: "nat \<Rightarrow> stmt list" where
  "one_stmt n =
     [\<lparr>st_start = 0, st_loc_start = \<lparr>pos_line = 1, pos_column = 0\<rparr>,
       st_loc_end = \<lparr>pos_line = 1, pos_column = n\<rparr>\<rparr>]"

definition example_parse :: "string \<Rightarrow> error + stmt list" where
  "example_parse code = Inr (one_stmt (length code))"

definition example_run :: "string \<Rightarrow> position list \<Rightarrow> error + js_value" where
  "example_run script deletions =
     (if script = ''return [(1+1)]'' then Inr (JsArray [JsNumber 2])
      else if script = ''return [(1+1;)]'' then Inl (SyntaxError ''Unexpected token'')
      else if script = ''1+1;'' then Inr JsUndefined
      else if script = ''return [(let x = 1)]'' then Inl (SyntaxError ''Unexpected identifier'')
      else if script = ''let x = 1'' then Inr JsUndefined
      else Inl (Error ''not an example''))"

definition example_String :: "js_value \<Rightarrow> string" where
  "example_String v = (case v of JsUndefined \<Rightarrow> ''undefined'' | JsString x \<Rightarrow> x | _ \<Rightarrow> ''[value]'')"

text \<open>A display surface and three live sessions.\<close>

definition terminal0 :: terminal where
  "terminal0 = \<lparr>t_id = 7, t_addons = [], t_listeners = [], t_written = []\<rparr>"

definition pseudo0 :: pseudo_pty where
  "pseudo0 = \<lparr>p_exit = Pending, p_onExit = Pending, exited = False, terminals = []\<rparr>"

definition text0 :: text_pty where
  "text0 =
     \<lparr>p_exit = Pending, p_onExit = Pending, exited = False, terminals = [],
      t_text = ''hello''\<rparr>"

text \<open>The steps of a session of the family, each class with its own \<^verbatim>\<open>pipe\<close>: a call of
  \<^verbatim>\<open>kill()\<close>, the callbacks on the exit future, a call of \<^verbatim>\<open>pipe\<close> (with what the lock
  answers).\<close>

datatype pseudo_op = CallKill | Callbacks | CallPipe outcome terminal

fun pseudo_step :: "pseudo_op \<Rightarrow> pseudo_pty \<Rightarrow> pseudo_pty" where
  "pseudo_step CallKill s = PseudoPseudoterminal_kill s"
| "pseudo_step Callbacks s = onExit_settles s"
| "pseudo_step (CallPipe a t) s = snd (snd (PseudoPseudoterminal_pipe t s))"

fun text_step :: "pseudo_op \<Rightarrow> text_pty \<Rightarrow> text_pty" where
  "text_step CallKill s = PseudoPseudoterminal_kill s"
| "text_step Callbacks s = onExit_settles s"
| "text_step (CallPipe a t) s = snd (snd (TextPseudoterminal_pipe a t s))"

fun console_step :: "pseudo_op \<Rightarrow> dev_console \<Rightarrow> dev_console" where
  "console_step CallKill s = PseudoPseudoterminal_kill s"
| "console_step Callbacks s = onExit_settles s"
| "console_step (CallPipe a t) s = snd (snd (DeveloperConsolePseudoterminal_pipe a t s))"

text \<open>What \<^verbatim>\<open>lock.acquire\<close> answers when the queue of the lock is full.\<close>

definition lock_refused :: outcome where
  "lock_refused = Thrown (Error ''Too many pending tasks in queue sync'')"

section \<open>Sessions on an operating-system process\<close>

text \<open>
  A child process of Node, as far as a session touches it: whether it is running, how
  many signals \<^verbatim>\<open>kill()\<close> has delivered to it, and its \<^verbatim>\<open>stdio\<close> array.
  \<^verbatim>\<open>ChildProcess.kill()\<close> answers whether the signal was delivered: \<^verbatim>\<open>false\<close> for a process
  that has exited.
\<close>

record stream =
  s_chunks :: "string list"
  s_error :: "error option"

datatype stdio_stream = Writable stream | Readable | Null

record child_process =
  cp_running :: bool
  cp_signals :: nat
  cp_stdio :: "stdio_stream list"

definition process_kill :: "child_process \<Rightarrow> bool \<times> child_process" where
  "process_kill p =
     (if cp_running p then (True, p\<lparr>cp_signals := Suc (cp_signals p)\<rparr>) else (False, p))"

text \<open>Modelled from the spec: \<^verbatim>\<open>writePromise\<close> of \<^verbatim>\<open>util.js\<close> (not among the sources)
  writes the chunk to the stream; "success is assumed unless the stream write itself
  fails". \<open>s_error\<close> is the failure a write on the stream meets, if any.\<close>

definition writePromise :: "stream \<Rightarrow> string \<Rightarrow> outcome \<times> stream" where
  "writePromise st chunk =
     (case s_error st of
        Some e \<Rightarrow> (Thrown e, st)
      | None \<Rightarrow> (Done, st\<lparr>s_chunks := s_chunks st @ [chunk]\<rparr>))"

text \<open>\<^verbatim>\<open>array[i]\<close>: \<^verbatim>\<open>undefined\<close> out of range.\<close>

definition js_index :: "'a list \<Rightarrow> nat \<Rightarrow> 'a option" where
  "js_index xs i = (if i < length xs then Some (xs ! i) else None)"

text \<open>\<^verbatim>\<open>code ?? signal ?? NaN\<close>.\<close>

definition code_or_signal :: "int option \<Rightarrow> string option \<Rightarrow> exit_value" where
  "code_or_signal code signal =
     (case code of
        Some c \<Rightarrow> ExitCode c
      | None \<Rightarrow> (case signal of Some g \<Rightarrow> ExitSignal g | None \<Rightarrow> ExitNaN))"

definition error_killing :: error where
  "error_killing = Error ''errors.error-killing-pseudoterminal''"

subsection \<open>\<^verbatim>\<open>UnixPseudoterminal\<close>\<close>

text \<open>\<open>u_shell\<close> is the \<^verbatim>\<open>shell\<close> promise once settled: the spawn error or the process.\<close>

record unix_pty =
  u_shell :: "error + child_process"
  u_onExit :: "exit_value promise"

definition cmdio :: nat where
  "cmdio = 3"

definition UnixPseudoterminal_kill :: "unix_pty \<Rightarrow> outcome \<times> unix_pty" where
  "UnixPseudoterminal_kill s =
     (case u_shell s of
        Inl e \<Rightarrow> (Thrown e, s)
      | Inr p \<Rightarrow>
          (case process_kill p of
             (delivered, p') \<Rightarrow>
               (if \<not> delivered then Thrown error_killing else Done, s\<lparr>u_shell := Inr p'\<rparr>)))"

definition stdio_String :: "stdio_stream option \<Rightarrow> string" where
  "stdio_String x =
     (case x of None \<Rightarrow> ''undefined'' | Some Null \<Rightarrow> ''null'' | Some _ \<Rightarrow> ''[object Object]'')"

text \<open>\<^verbatim>\<open>resize(columns: number, rows: number)\<close>. The source restricts the two numbers in no
  way, and the template literal prints each with the engine's \<^verbatim>\<open>Number::toString\<close>
  (decimal digits for an integer of magnitude below \<open>10\<^sup>2\<^sup>1\<close>, exponent form beyond, a
  fraction, \<^verbatim>\<open>NaN\<close>, \<^verbatim>\<open>Infinity\<close>). So the numbers are of any type \<open>'n\<close>, and \<open>rendered\<close> is
  that rendering.\<close>

definition UnixPseudoterminal_resize ::
  "('n \<Rightarrow> string) \<Rightarrow> 'n \<Rightarrow> 'n \<Rightarrow> unix_pty \<Rightarrow> outcome \<times> unix_pty" where
  "UnixPseudoterminal_resize rendered columns rows s =
     (case u_shell s of
        Inl e \<Rightarrow> (Thrown e, s)
      | Inr p \<Rightarrow>
          (case js_index (cp_stdio p) cmdio of
             Some (Writable st) \<Rightarrow>
               (case writePromise st (rendered columns @ ''x'' @ rendered rows @ [LF]) of
                  (r, st') \<Rightarrow>
                    (r, s\<lparr>u_shell := Inr (p\<lparr>cp_stdio := (cp_stdio p)[cmdio := Writable st']\<rparr>)\<rparr>))
           | x \<Rightarrow> (Thrown (TypeError (stdio_String x)), s)))"

text \<open>The \<^verbatim>\<open>exit\<close> event of the process (an event of the environment) and its handler.\<close>

definition UnixPseudoterminal_on_exit ::
  "int option \<Rightarrow> string option \<Rightarrow> unix_pty \<Rightarrow> unix_pty" where
  "UnixPseudoterminal_on_exit code signal s =
     (case u_shell s of
        Inl e \<Rightarrow> s
      | Inr p \<Rightarrow>
          s\<lparr>u_shell := Inr (p\<lparr>cp_running := False\<rparr>),
            u_onExit := resolve (code_or_signal code signal) (u_onExit s)\<rparr>)"

text \<open>\<^verbatim>\<open>shell.stdio[i]\<close> of a session, \<^verbatim>\<open>undefined\<close> when there is no process.\<close>

definition stdio_of :: "unix_pty \<Rightarrow> nat \<Rightarrow> stdio_stream option" where
  "stdio_of s i = (case u_shell s of Inl e \<Rightarrow> None | Inr p \<Rightarrow> js_index (cp_stdio p) i)"

subsection \<open>\<^verbatim>\<open>WindowsPseudoterminal\<close>\<close>

text \<open>\<^verbatim>\<open>String.prototype.trim\<close> and \<^verbatim>\<open>parseInt(string, 10)\<close>, on the white space and line
  terminators of ASCII; \<open>None\<close> is \<^verbatim>\<open>NaN\<close>.\<close>

definition js_whitespace :: "char \<Rightarrow> bool" where
  "js_whitespace c = (c \<in> set [CHR 0x09, CHR 0x0A, CHR 0x0B, CHR 0x0C, CHR 0x0D, CHR 0x20])"

definition js_trim :: "string \<Rightarrow> string" where
  "js_trim s = rev (dropWhile js_whitespace (rev (dropWhile js_whitespace s)))"

definition is_digit :: "char \<Rightarrow> bool" where
  "is_digit c = (of_char (CHR ''0'') \<le> (of_char c :: nat) \<and> (of_char c :: nat) \<le> of_char (CHR ''9''))"

definition digit_val :: "char \<Rightarrow> nat" where
  "digit_val c = of_char c - of_char (CHR ''0'')"

definition digits_val :: "string \<Rightarrow> nat" where
  "digits_val ds = foldl (\<lambda>a c. 10 * a + digit_val c) 0 ds"

definition parseInt10 :: "string \<Rightarrow> int option" where
  "parseInt10 s =
     (let s1 = dropWhile js_whitespace s;
          (negative, s2) =
            (case s1 of
               [] \<Rightarrow> (False, s1)
             | c # r \<Rightarrow>
                 if c = CHR ''-'' then (True, r) else if c = CHR ''+'' then (False, r)
                 else (False, s1));
          ds = takeWhile is_digit s2
      in if ds = [] then None
         else Some (if negative then - int (digits_val ds) else int (digits_val ds)))"

text \<open>What the wrapper command \<^verbatim>\<open>call echo %^ERRORLEVEL% >file\<close> leaves in the file at
  error level \<open>n\<close>: the number in decimal, the blank before \<^verbatim>\<open>>\<close>, and the line end of the
  command interpreter.\<close>

definition CR :: char where
  "CR = CHR 0x0D"

definition echo_ERRORLEVEL :: "int \<Rightarrow> string" where
  "echo_ERRORLEVEL n = js_toString n @ '' '' @ [CR, LF]"

datatype fs_effect = ReadFile string | Sleep nat | Cleanup string

text \<open>The fields of the session that \<^verbatim>\<open>kill\<close> and the exit handler touch: the \<^verbatim>\<open>shell\<close>
  promise once settled, the path of the temp file \<^verbatim>\<open>codeTmp\<close> and the exit future; the last
  two fields collect the file-system effects and the calls to \<^verbatim>\<open>self.console\<close>.\<close>

record windows_pty =
  w_shell :: "error + child_process"
  w_codeTmp :: string
  w_onExit :: "exit_value promise"
  w_effects :: "fs_effect list"
  w_console :: "console_event list"

definition WindowsPseudoterminal_kill :: "windows_pty \<Rightarrow> outcome \<times> windows_pty" where
  "WindowsPseudoterminal_kill s =
     (case w_shell s of
        Inl e \<Rightarrow> (Thrown e, s)
      | Inr p \<Rightarrow>
          (case process_kill p of
             (delivered, p') \<Rightarrow>
               (if \<not> delivered then Thrown error_killing else Done, s\<lparr>w_shell := Inr p'\<rparr>)))"

text \<open>
  The handler of the shell's \<^verbatim>\<open>exit\<close> event. \<open>wait\<close> is \<^verbatim>\<open>TERMINAL_EXIT_CLEANUP_WAIT\<close> of
  \<^verbatim>\<open>magic.js\<close> (not among the sources); \<open>file\<close> is what \<^verbatim>\<open>readFile(codeTmp.path)\<close>
  answers, \<open>cleanup\<close> what \<^verbatim>\<open>codeTmp.cleanup()\<close> answers.
\<close>

definition exit_code_of ::
  "(error + string) \<Rightarrow> int option \<Rightarrow> string option \<Rightarrow> console_event list \<times> exit_value" where
  "exit_code_of file conCode signal =
     (case file of
        Inr contents \<Rightarrow>
          (case parseInt10 (js_trim contents) of
             None \<Rightarrow> ([], code_or_signal conCode signal)
           | Some termCode \<Rightarrow> ([], ExitCode termCode))
      | Inl e \<Rightarrow> ([ConsoleDebug e], code_or_signal conCode signal))"

definition cleanup_task :: "nat \<Rightarrow> string \<Rightarrow> outcome \<Rightarrow> fs_effect list \<times> console_event list" where
  "cleanup_task wait path cleanup =
     ([Sleep wait, Cleanup path],
      (case cleanup of Done \<Rightarrow> [] | Thrown e \<Rightarrow> [ConsoleWarn e]))"

definition WindowsPseudoterminal_on_exit ::
  "nat \<Rightarrow> (error + string) \<Rightarrow> outcome \<Rightarrow> int option \<Rightarrow> string option \<Rightarrow>
     windows_pty \<Rightarrow> windows_pty" where
  "WindowsPseudoterminal_on_exit wait file cleanup conCode signal s =
     (case w_shell s of
        Inl e \<Rightarrow> s
      | Inr p \<Rightarrow>
          (case exit_code_of file conCode signal of
             (evs, v) \<Rightarrow>
               (case cleanup_task wait (w_codeTmp s) cleanup of
                  (effs, warns) \<Rightarrow>
                    s\<lparr>w_shell := Inr (p\<lparr>cp_running := False\<rparr>),
                      w_onExit := resolve v (w_onExit s),
                      w_effects := w_effects s @ ReadFile (w_codeTmp s) # effs,
                      w_console := w_console s @ evs @ warns\<rparr>)))"

text \<open>A spawned process with its four pipes, and the sessions on it.\<close>

definition pipe0 :: stdio_stream where
  "pipe0 = Writable \<lparr>s_chunks = [], s_error = None\<rparr>"

definition process0 :: child_process where
  "process0 = \<lparr>cp_running = True, cp_signals = 0, cp_stdio = [pipe0, Readable, Readable, pipe0]\<rparr>"

definition unix0 :: unix_pty where
  "unix0 = \<lparr>u_shell = Inr process0, u_onExit = Pending\<rparr>"

definition windows0 :: windows_pty where
  "windows0 =
     \<lparr>w_shell = Inr (process0\<lparr>cp_stdio := [pipe0, Readable, Readable]\<rparr>), w_codeTmp = ''tmp'',
      w_onExit = Pending, w_effects = [], w_console = []\<rparr>"

section \<open>The display-surface adapter's debounced resize\<close>













section \<open>Properties of the reference-counted wrapper\<close>

lemma new_wrapper_props:
  assumes "RefPsuedoterminal_new (Wrapper w) h = (w', h')"
  shows "r_ref w' = r_ref w" "r_delegate w' = r_delegate w" "r_id w' = next_wrapper h"
    "cells h' = (cells h)(r_ref w := cells h (r_ref w) + 1)"
    "next_wrapper h' = Suc (next_wrapper h)"
    "d_calls (delegates h' d) = d_calls (delegates h d)"
    "d_onExit (delegates h' d) = d_onExit (delegates h d)"
    "exits h' = (exits h)(next_wrapper h := forward (d_onExit (delegates h (r_delegate w))) Pending)"
  using assms
  by (auto simp add: RefPsuedoterminal_new_def subscribe_def Let_def fun_eq_iff)

lemma new_session_props:
  assumes "RefPsuedoterminal_new (Session s) h = (w', h')"
  shows "r_ref w' = next_cell h" "r_delegate w' = s" "r_id w' = next_wrapper h"
    "cells h' = (cells h)(next_cell h := 1)"
    "next_wrapper h' = Suc (next_wrapper h)"
    "d_calls (delegates h' d) = d_calls (delegates h d)"
    "d_onExit (delegates h' d) = d_onExit (delegates h d)"
    "exits h' = (exits h)(next_wrapper h := forward (d_onExit (delegates h s)) Pending)"
  using assms
  by (auto simp add: RefPsuedoterminal_new_def subscribe_def Let_def fun_eq_iff)

lemma dup_all_family:
  assumes "dup_all ks ws h = (ws', h')" "ws \<noteq> []"
    "\<forall>w\<in>set ws. r_ref w = c \<and> r_delegate w = d"
  shows "(\<forall>w\<in>set ws'. r_ref w = c \<and> r_delegate w = d) \<and>
         length ws' = length ws + length ks \<and>
         cells h' c = cells h c + int (length ks) \<and>
         d_calls (delegates h' d) = d_calls (delegates h d) \<and>
         d_onExit (delegates h' d) = d_onExit (delegates h d)"
  using assms
proof (induction ks arbitrary: ws h)
  case Nil
  then show ?case by simp
next
  case (Cons k ks)
  obtain w h1 where dup: "RefPsuedoterminal_new (Wrapper (ws ! (k mod length ws))) h = (w, h1)"
    by (cases "RefPsuedoterminal_new (Wrapper (ws ! (k mod length ws))) h") auto
  have mem: "ws ! (k mod length ws) \<in> set ws"
    using Cons.prems(2) by simp
  have rest: "dup_all ks (ws @ [w]) h1 = (ws', h')"
    using Cons.prems(1) dup by (simp add: RefPsuedoterminal_dup_def)
  have fam: "\<forall>v\<in>set (ws @ [w]). r_ref v = c \<and> r_delegate v = d"
    using Cons.prems(3) mem new_wrapper_props(1,2)[OF dup] by auto
  have c1: "cells h1 c = cells h c + 1"
    using new_wrapper_props(4)[OF dup] Cons.prems(3) mem by simp
  from Cons.IH[OF rest _ fam]
  show ?case
    using c1 new_wrapper_props(6,7)[OF dup] by simp
qed

lemma kill_above:
  assumes "1 < cells h (r_ref w)"
  shows "fst (RefPsuedoterminal_kill w h) = Done"
    "delegates (snd (RefPsuedoterminal_kill w h)) = delegates h"
    "cells (snd (RefPsuedoterminal_kill w h)) = (cells h)(r_ref w := cells h (r_ref w) - 1)"
    "exits (snd (RefPsuedoterminal_kill w h)) =
       (exits h)(r_id w := resolve EXIT_SUCCESS (exits h (r_id w)))"
  using assms by (simp_all add: RefPsuedoterminal_kill_def Let_def)

lemma kill_last:
  assumes "cells h (r_ref w) \<le> 1"
  shows "fst (RefPsuedoterminal_kill w h) = d_kill (delegates h (r_delegate w))"
    "real_kills (r_delegate w) (snd (RefPsuedoterminal_kill w h)) = Suc (real_kills (r_delegate w) h)"
    "exits (snd (RefPsuedoterminal_kill w h)) = exits h"
    "cells (snd (RefPsuedoterminal_kill w h)) = (cells h)(r_ref w := cells h (r_ref w) - 1)"
  using assms by (simp_all add: RefPsuedoterminal_kill_def Let_def real_kills_def delegate_call_def)

lemma kill_all_below:
  assumes "\<forall>w\<in>set ks. r_ref w = c \<and> r_delegate w = d" "int (length ks) < cells h c"
  shows "delegates (kill_all ks h) = delegates h \<and>
         cells (kill_all ks h) c = cells h c - int (length ks)"
  using assms
proof (induction ks arbitrary: h)
  case Nil
  then show ?case by simp
next
  case (Cons k ks)
  have k: "r_ref k = c" "r_delegate k = d" using Cons.prems(1) by auto
  have gt: "1 < cells h (r_ref k)" using Cons.prems(2) k by simp
  let ?h = "snd (RefPsuedoterminal_kill k h)"
  have "int (length ks) < cells ?h c"
    using Cons.prems(2) kill_above(3)[OF gt] k by simp
  with Cons.IH[of ?h] Cons.prems(1)
  show ?case using kill_above(2,3)[OF gt] k by simp
qed

lemma kill_all_snoc: "kill_all (ks @ [k]) h = snd (RefPsuedoterminal_kill k (kill_all ks h))"
  by (induction ks arbitrary: h) simp_all

lemma kill_all_exact:
  assumes "\<forall>w\<in>set ks. r_ref w = c \<and> r_delegate w = d" "cells h c = int (length ks)" "ks \<noteq> []"
  shows "real_kills d (kill_all ks h) = Suc (real_kills d h)"
proof -
  obtain ks' k where ks: "ks = ks' @ [k]"
    using assms(3) by (metis rev_exhaust)
  have fam': "\<forall>w\<in>set ks'. r_ref w = c \<and> r_delegate w = d" and k: "r_ref k = c" "r_delegate k = d"
    using assms(1) ks by auto
  have lt: "int (length ks') < cells h c" using assms(2) ks by simp
  from kill_all_below[OF fam' lt]
  have d: "delegates (kill_all ks' h) = delegates h"
    and c: "cells (kill_all ks' h) c = 1" using assms(2) ks by simp_all
  have "real_kills d (snd (RefPsuedoterminal_kill k (kill_all ks' h))) = Suc (real_kills d (kill_all ks' h))"
    using kill_last(2)[of "kill_all ks' h" k] c k by simp
  then show ?thesis
    using d by (simp add: ks kill_all_snoc real_kills_def)
qed

lemma forward_settled: "q \<noteq> Pending \<Longrightarrow> forward p q = q"
  by (cases q; cases p) (simp_all add: forward_def resolve_def reject_def)

lemma forward_Pending: "forward p Pending = p"
  by (cases p) (simp_all add: forward_def resolve_def reject_def)

lemma resolve_settled: "q \<noteq> Pending \<Longrightarrow> resolve v q = q"
  by (cases q) (simp_all add: resolve_def)

lemma fold_notify_frame:
  "delegates (fold (notify p) js h) = delegates h \<and>
   next_wrapper (fold (notify p) js h) = next_wrapper h \<and>
   cells (fold (notify p) js h) = cells h"
  by (induction js arbitrary: h) (simp_all add: notify_def)

lemma fold_notify_exits:
  "exits (fold (notify p) js h) i =
     (if i \<in> set js then forward p (exits h i) else exits h i)"
proof (induction js arbitrary: h)
  case Nil
  then show ?case by simp
next
  case (Cons j js)
  have idem: "forward p (forward p (exits h i)) = forward p (exits h i)"
    by (cases "exits h i"; cases p) (simp_all add: forward_def resolve_def reject_def)
  show ?case
    using Cons.IH[of "notify p j h"] idem by (auto simp add: notify_def)
qed

lemma settles_exit:
  assumes "i \<in> set (d_listeners (delegates h d))" "d_onExit (delegates h d) = Pending"
    "p \<noteq> Pending" "exits h i = Pending"
  shows "exits (delegate_settles d p h) i = p"
  using assms by (simp add: delegate_settles_def Let_def fold_notify_exits forward_Pending)

lemma step_exit_stable:
  assumes "exits h i \<noteq> Pending" "i < next_wrapper h"
  shows "exits (ref_step op h) i = exits h i"
proof (cases op)
  case (New arg)
  then show ?thesis using assms
    by (cases arg) (simp_all add: RefPsuedoterminal_new_def subscribe_def Let_def)
next
  case (Kill w)
  then show ?thesis using assms
    by (auto simp add: RefPsuedoterminal_kill_def Let_def delegate_call_def resolve_settled)
next
  case (Pipe w t)
  then show ?thesis by (simp add: RefPsuedoterminal_pipe_def delegate_call_def)
next
  case (Resize w c r)
  then show ?thesis
    by (simp add: RefPsuedoterminal_resize_def delegate_call_def split: option.splits)
next
  case (Settles d p)
  then show ?thesis using assms
    by (simp add: delegate_settles_def Let_def fold_notify_exits forward_settled)
qed

lemma step_next_wrapper: "next_wrapper h \<le> next_wrapper (ref_step op h)"
proof (cases op)
  case (New arg)
  then show ?thesis
    by (cases arg) (simp_all add: RefPsuedoterminal_new_def subscribe_def Let_def)
next
  case (Kill w)
  then show ?thesis by (simp add: RefPsuedoterminal_kill_def Let_def delegate_call_def)
next
  case (Pipe w t)
  then show ?thesis by (simp add: RefPsuedoterminal_pipe_def delegate_call_def)
next
  case (Resize w c r)
  then show ?thesis
    by (simp add: RefPsuedoterminal_resize_def delegate_call_def split: option.splits)
next
  case (Settles d p)
  then show ?thesis by (simp add: delegate_settles_def Let_def fold_notify_frame)
qed

lemma step_listener_kept:
  assumes "i \<in> set (d_listeners (delegates h d))"
  shows "i \<in> set (d_listeners (delegates (ref_step op h) d))"
proof (cases op)
  case (New arg)
  then show ?thesis using assms
    by (cases arg) (auto simp add: RefPsuedoterminal_new_def subscribe_def Let_def)
next
  case (Kill w)
  then show ?thesis using assms
    by (auto simp add: RefPsuedoterminal_kill_def Let_def delegate_call_def)
next
  case (Pipe w t)
  then show ?thesis using assms by (auto simp add: RefPsuedoterminal_pipe_def delegate_call_def)
next
  case (Resize w c r)
  then show ?thesis using assms
    by (auto simp add: RefPsuedoterminal_resize_def delegate_call_def split: option.splits)
next
  case (Settles d' p)
  then show ?thesis using assms by (auto simp add: delegate_settles_def Let_def fold_notify_frame)
qed

lemma run_listener_kept:
  "i \<in> set (d_listeners (delegates h d)) \<Longrightarrow>
   i \<in> set (d_listeners (delegates (fold ref_step ops h) d))"
  by (induction ops arbitrary: h) (simp_all add: step_listener_kept)

lemma run_next_wrapper: "next_wrapper h \<le> next_wrapper (fold ref_step ops h)"
proof (induction ops arbitrary: h)
  case Nil
  then show ?case by simp
next
  case (Cons op ops)
  show ?case using Cons.IH[of "ref_step op h"] step_next_wrapper[of h op] by simp
qed

lemma run_exit_stable:
  "exits h i \<noteq> Pending \<Longrightarrow> i < next_wrapper h \<Longrightarrow> exits (fold ref_step ops h) i = exits h i"
proof (induction ops arbitrary: h)
  case Nil
  then show ?case by simp
next
  case (Cons op ops)
  have "exits (ref_step op h) i = exits h i" using Cons.prems by (rule step_exit_stable)
  moreover have "i < next_wrapper (ref_step op h)"
    using Cons.prems(2) step_next_wrapper[of h op] by simp
  ultimately show ?case using Cons.IH[of "ref_step op h"] Cons.prems(1) by simp
qed

lemma new_subscribed:
  assumes "RefPsuedoterminal_new arg h = (w, h')"
  shows "r_id w \<in> set (d_listeners (delegates h' (r_delegate w)))"
    "r_id w < next_wrapper h'"
    "exits h' (r_id w) = d_onExit (delegates h' (r_delegate w))"
  using assms
  by (cases arg; auto simp add: RefPsuedoterminal_new_def subscribe_def Let_def forward_Pending)+

lemma settles_next_wrapper: "next_wrapper (delegate_settles d p h) = next_wrapper h"
  by (simp add: delegate_settles_def Let_def fold_notify_frame)

lemma ref_scenario:
  "ref_w0 = \<lparr>r_id = 0, r_delegate = 0, r_ref = 0\<rparr>"
  "ref_w1 = \<lparr>r_id = 1, r_delegate = 0, r_ref = 0\<rparr>"
  "cells ref_h2 0 = 2"
  "d_calls (delegates ref_h2 0) = []"
  by (simp_all add: ref_w0_def ref_w1_def ref_h1_def ref_h2_def RefPsuedoterminal_dup_def
      RefPsuedoterminal_new_def subscribe_def Let_def heap0_def fresh_delegate_def)

text \<open>
  C1, as the code has it. \<^verbatim>\<open>kill()\<close> decrements the shared counter. While the counter was
  above 1 the call answers normally, leaves every session as it was and resolves the
  calling wrapper's own exit future with \<^verbatim>\<open>EXIT_SUCCESS\<close> (unless it had settled); when
  the counter was 1 or less the session's \<^verbatim>\<open>kill\<close> is called once more and no exit future
  is touched. After \<^verbatim>\<open>new RefPsuedoterminal(session)\<close> and \<open>N\<close> calls of \<^verbatim>\<open>dup()\<close> (on any
  of the wrappers obtained so far), any \<open>N + 1\<close> calls of \<^verbatim>\<open>kill()\<close> on these wrappers, in
  any order, call the session's \<^verbatim>\<open>kill\<close> exactly once, and the first \<open>N\<close> of them leave the
  session untouched: the call number \<open>N + 1\<close> is the one that kills.
\<close>

theorem RefPsuedoterminal_kill_last_release:
  "(1 < cells h (r_ref w) \<longrightarrow>
      fst (RefPsuedoterminal_kill w h) = Done \<and>
      delegates (snd (RefPsuedoterminal_kill w h)) = delegates h \<and>
      cells (snd (RefPsuedoterminal_kill w h)) (r_ref w) = cells h (r_ref w) - 1 \<and>
      exits (snd (RefPsuedoterminal_kill w h)) (r_id w) = resolve EXIT_SUCCESS (exits h (r_id w))) \<and>
   (cells h (r_ref w) \<le> 1 \<longrightarrow>
      real_kills (r_delegate w) (snd (RefPsuedoterminal_kill w h)) =
        Suc (real_kills (r_delegate w) h) \<and>
      cells (snd (RefPsuedoterminal_kill w h)) (r_ref w) = cells h (r_ref w) - 1 \<and>
      exits (snd (RefPsuedoterminal_kill w h)) = exits h) \<and>
   (RefPsuedoterminal_new (Session d) h0 = (w0, h1) \<longrightarrow>
    dup_all script [w0] h1 = (ws, h2) \<longrightarrow>
    set ks \<subseteq> set ws \<longrightarrow> length ks = Suc (length script) \<longrightarrow>
      real_kills d (kill_all ks h2) = Suc (real_kills d h2) \<and>
      (\<forall>j\<le>length script. delegates (kill_all (take j ks) h2) = delegates h2))"
proof (intro conjI impI)
  assume new: "RefPsuedoterminal_new (Session d) h0 = (w0, h1)"
    and dups: "dup_all script [w0] h1 = (ws, h2)"
    and sub: "set ks \<subseteq> set ws" and len: "length ks = Suc (length script)"
  have fam0: "\<forall>w\<in>set [w0]. r_ref w = next_cell h0 \<and> r_delegate w = d"
    using new_session_props(1,2)[OF new] by simp
  have c1: "cells h1 (next_cell h0) = 1"
    using new_session_props(4)[OF new] by simp
  from dup_all_family[OF dups _ fam0]
  have fam: "\<forall>w\<in>set ws. r_ref w = next_cell h0 \<and> r_delegate w = d"
    and cnt: "cells h2 (next_cell h0) = 1 + int (length script)"
    using c1 by simp_all
  have famk: "\<forall>w\<in>set ks. r_ref w = next_cell h0 \<and> r_delegate w = d"
    using fam sub by auto
  show "real_kills d (kill_all ks h2) = Suc (real_kills d h2)"
    using famk cnt len by (intro kill_all_exact[where c = "next_cell h0"]) auto
  show "\<forall>j\<le>length script. delegates (kill_all (take j ks) h2) = delegates h2"
  proof (intro allI impI)
    fix j assume j: "j \<le> length script"
    have "\<forall>w\<in>set (take j ks). r_ref w = next_cell h0 \<and> r_delegate w = d"
      using famk by (meson in_set_takeD)
    moreover have "int (length (take j ks)) < cells h2 (next_cell h0)"
      using j len cnt by simp
    ultimately show "delegates (kill_all (take j ks) h2) = delegates h2"
      using kill_all_below by blast
  qed
qed (simp_all add: kill_above kill_last)

theorem RefPsuedoterminal_kill_last_release_witness:
  "1 < cells ref_h2 (r_ref ref_w0) \<and>
   exits (snd (RefPsuedoterminal_kill ref_w0 ref_h2)) (r_id ref_w0) = Resolved EXIT_SUCCESS \<and>
   cells (kill_all [ref_w1] ref_h2) (r_ref ref_w0) \<le> 1 \<and>
   real_kills 0 (snd (RefPsuedoterminal_kill ref_w0 (kill_all [ref_w1] ref_h2))) = 1 \<and>
   RefPsuedoterminal_new (Session 0) heap0 = (ref_w0, ref_h1) \<and>
   dup_all [0] [ref_w0] ref_h1 = ([ref_w0, ref_w1], ref_h2) \<and>
   set [ref_w1, ref_w0] \<subseteq> set [ref_w0, ref_w1] \<and>
   real_kills 0 (kill_all [ref_w1, ref_w0] ref_h2) = 1 \<and>
   delegates (kill_all [ref_w1] ref_h2) = delegates ref_h2"
proof -
  have new: "RefPsuedoterminal_new (Session 0) heap0 = (ref_w0, ref_h1)"
    by (simp add: ref_w0_def ref_h1_def)
  have dups: "dup_all [0] [ref_w0] ref_h1 = ([ref_w0, ref_w1], ref_h2)"
    by (simp add: ref_w1_def ref_h2_def split_beta)
  have sub: "set [ref_w1, ref_w0] \<subseteq> set [ref_w0, ref_w1]"
    by simp
  have big: "1 < cells ref_h2 (r_ref ref_w0)"
    by (simp add: ref_scenario)
  have one: "cells (kill_all [ref_w1] ref_h2) (r_ref ref_w0) \<le> 1"
    by (simp add: ref_scenario RefPsuedoterminal_kill_def Let_def)
  have pending: "exits ref_h2 (r_id ref_w0) = Pending"
    by (simp add: ref_w0_def ref_h1_def ref_h2_def RefPsuedoterminal_dup_def
        RefPsuedoterminal_new_def subscribe_def Let_def heap0_def fresh_delegate_def forward_def)
  have none: "real_kills 0 ref_h2 = 0"
    by (simp add: real_kills_def ref_scenario)
  note a = RefPsuedoterminal_kill_last_release
    [where h = ref_h2 and w = ref_w0 and d = 0 and ?h0.0 = heap0 and ?w0.0 = ref_w0
       and ?h1.0 = ref_h1 and script = "[0]" and ws = "[ref_w0, ref_w1]" and ?h2.0 = ref_h2
       and ks = "[ref_w1, ref_w0]"]
  note b = RefPsuedoterminal_kill_last_release
    [where h = "kill_all [ref_w1] ref_h2" and w = ref_w0 and d = 0 and ?h0.0 = heap0
       and ?w0.0 = ref_w0 and ?h1.0 = ref_h1 and script = "[0]" and ws = "[ref_w0, ref_w1]"
       and ?h2.0 = ref_h2 and ks = "[ref_w1, ref_w0]"]
  have r0: "r_delegate ref_w0 = 0"
    by (simp add: ref_scenario)
  have d1: "delegates (kill_all [ref_w1] ref_h2) = delegates ref_h2"
    using a new dups sub by (auto dest: spec [where x = 1])
  have n1: "real_kills 0 (kill_all [ref_w1] ref_h2) = 0"
    using d1 none by (simp add: real_kills_def)
  show ?thesis
    using a b new dups sub big one pending none r0 d1 n1
    by (simp add: resolve_def del: kill_all.simps)
qed

theorem RefPsuedoterminal_kill_Nth_counterexample:
  "real_kills 0 (kill_all [ref_w0] ref_h2) = 0 \<and>
   real_kills 0 (kill_all [ref_w0, ref_w1] ref_h2) = 1"
  by (simp add: ref_scenario real_kills_def RefPsuedoterminal_kill_def Let_def delegate_call_def)

text \<open>
  C9, as the code has it. Every wrapper, a duplicate too, subscribes to the session's
  exit future when it is built. Whatever is called afterwards, if the wrapper's own
  exit future is still pending when the session's exit future settles (resolves or
  rejects), it settles the same way, whether or not \<^verbatim>\<open>kill()\<close> was called on the
  wrapper, and no later call changes it. A wrapper whose own \<^verbatim>\<open>kill()\<close> has already
  resolved its exit future keeps \<^verbatim>\<open>EXIT_SUCCESS\<close>.
\<close>

theorem RefPsuedoterminal_exit_follows_delegate:
  assumes "RefPsuedoterminal_new arg h = (w, h1)"
    and "h2 = fold ref_step ops h1"
    and "d_onExit (delegates h2 (r_delegate w)) = Pending"
    and "exits h2 (r_id w) = Pending"
    and "p \<noteq> Pending"
  shows "exits (delegate_settles (r_delegate w) p h2) (r_id w) = p \<and>
         exits (fold ref_step ops' (delegate_settles (r_delegate w) p h2)) (r_id w) = p"
proof -
  have mem: "r_id w \<in> set (d_listeners (delegates h2 (r_delegate w)))"
    using new_subscribed(1)[OF assms(1)] assms(2) run_listener_kept by simp
  have lt: "r_id w < next_wrapper h2"
    using new_subscribed(2)[OF assms(1)] assms(2) run_next_wrapper[of h1 ops] by simp
  have e: "exits (delegate_settles (r_delegate w) p h2) (r_id w) = p"
    using mem assms(3) assms(5) assms(4) by (rule settles_exit)
  have "exits (fold ref_step ops' (delegate_settles (r_delegate w) p h2)) (r_id w) =
        exits (delegate_settles (r_delegate w) p h2) (r_id w)"
    using e assms(5) lt by (intro run_exit_stable) (simp_all add: settles_next_wrapper)
  with e show ?thesis by simp
qed

theorem RefPsuedoterminal_exit_follows_delegate_witness:
  "RefPsuedoterminal_new (Session 0) heap0 = (ref_w0, ref_h1) \<and>
   d_onExit (delegates (fold ref_step [New (Wrapper ref_w0), Kill ref_w1] ref_h1)
     (r_delegate ref_w0)) = Pending \<and>
   exits (fold ref_step [New (Wrapper ref_w0), Kill ref_w1] ref_h1) (r_id ref_w0) = Pending \<and>
   exits (delegate_settles (r_delegate ref_w0) (Rejected (Error ''spawn''))
     (fold ref_step [New (Wrapper ref_w0), Kill ref_w1] ref_h1)) (r_id ref_w0)
     = Rejected (Error ''spawn'') \<and>
   exits (fold ref_step [Kill ref_w0]
     (delegate_settles (r_delegate ref_w0) (Rejected (Error ''spawn''))
       (fold ref_step [New (Wrapper ref_w0), Kill ref_w1] ref_h1))) (r_id ref_w0)
     = Rejected (Error ''spawn'')"
proof -
  have new: "RefPsuedoterminal_new (Session 0) heap0 = (ref_w0, ref_h1)"
    by (simp add: ref_w0_def ref_h1_def)
  have live: "d_onExit (delegates (fold ref_step [New (Wrapper ref_w0), Kill ref_w1] ref_h1)
     (r_delegate ref_w0)) = Pending"
    by (simp add: ref_w0_def ref_w1_def ref_h1_def RefPsuedoterminal_dup_def
        RefPsuedoterminal_new_def subscribe_def Let_def heap0_def fresh_delegate_def
        RefPsuedoterminal_kill_def delegate_call_def)
  have pending: "exits (fold ref_step [New (Wrapper ref_w0), Kill ref_w1] ref_h1) (r_id ref_w0)
     = Pending"
    by (simp add: ref_w0_def ref_w1_def ref_h1_def RefPsuedoterminal_dup_def
        RefPsuedoterminal_new_def subscribe_def Let_def heap0_def fresh_delegate_def
        RefPsuedoterminal_kill_def delegate_call_def forward_def)
  show ?thesis
    using RefPsuedoterminal_exit_follows_delegate
      [OF new refl live pending, of "Rejected (Error ''spawn'')" "[Kill ref_w0]"]
      new live pending
    by simp
qed

theorem RefPsuedoterminal_exit_counterexample:
  "exits (delegate_settles 0 (Resolved (ExitCode 1)) (kill_all [ref_w0] ref_h2)) (r_id ref_w0)
     = Resolved (ExitCode 0) \<and>
   d_onExit (delegates (delegate_settles 0 (Resolved (ExitCode 1)) (kill_all [ref_w0] ref_h2)) 0)
     = Resolved (ExitCode 1)"
  by (simp add: ref_w0_def ref_w1_def ref_h1_def ref_h2_def RefPsuedoterminal_dup_def
      RefPsuedoterminal_new_def subscribe_def Let_def heap0_def fresh_delegate_def
      RefPsuedoterminal_kill_def delegate_settles_def notify_def forward_def resolve_def
      EXIT_SUCCESS_def)

text \<open>
  C10. A wrapper whose delegate defines no \<^verbatim>\<open>resize\<close> answers \<^verbatim>\<open>resize(columns, rows)\<close>
  with \<^verbatim>\<open>undefined\<close> and leaves the whole store, the delegate included, as it was; when
  the delegate defines \<^verbatim>\<open>resize\<close>, the delegate receives exactly one more call, with the
  same columns and rows, and its answer is the wrapper's answer.
\<close>

theorem RefPsuedoterminal_resize_delegates:
  "(d_resize (delegates h (r_delegate w)) = None \<longrightarrow>
      RefPsuedoterminal_resize w columns rows h = (Done, h)) \<and>
   (\<forall>r. d_resize (delegates h (r_delegate w)) = Some r \<longrightarrow>
      fst (RefPsuedoterminal_resize w columns rows h) = r \<and>
      d_calls (delegates (snd (RefPsuedoterminal_resize w columns rows h)) (r_delegate w)) =
        d_calls (delegates h (r_delegate w)) @ [ResizeCall columns rows] \<and>
      cells (snd (RefPsuedoterminal_resize w columns rows h)) = cells h \<and>
      exits (snd (RefPsuedoterminal_resize w columns rows h)) = exits h)"
  by (simp add: RefPsuedoterminal_resize_def delegate_call_def)

theorem RefPsuedoterminal_resize_delegates_witness:
  "d_resize (delegates ref_h2 (r_delegate ref_w0)) = None \<and>
   RefPsuedoterminal_resize ref_w0 80 24 ref_h2 = (Done, ref_h2) \<and>
   d_resize (delegates ref_h2r (r_delegate ref_w0)) = Some Done \<and>
   fst (RefPsuedoterminal_resize ref_w0 80 24 ref_h2r) = Done \<and>
   d_calls (delegates (snd (RefPsuedoterminal_resize ref_w0 80 24 ref_h2r)) (r_delegate ref_w0))
     = [ResizeCall 80 24]"
proof -
  have none: "d_resize (delegates ref_h2 (r_delegate ref_w0)) = None"
    by (simp add: ref_w0_def ref_h1_def ref_h2_def RefPsuedoterminal_dup_def
        RefPsuedoterminal_new_def subscribe_def Let_def heap0_def fresh_delegate_def)
  have some: "d_resize (delegates ref_h2r (r_delegate ref_w0)) = Some Done"
    by (simp add: ref_h2r_def ref_scenario)
  have calls: "d_calls (delegates ref_h2r (r_delegate ref_w0)) = []"
    by (simp add: ref_h2r_def ref_scenario)
  show ?thesis
    using RefPsuedoterminal_resize_delegates [of ref_h2 ref_w0 80 24]
      RefPsuedoterminal_resize_delegates [of ref_h2r ref_w0 80 24] none some calls
    by simp
qed

section \<open>Properties of \<^verbatim>\<open>PseudoPseudoterminal\<close> and its subclasses\<close>

lemma pseudo_step_flag:
  "(p_onExit s \<noteq> Pending \<longrightarrow> exited s) \<Longrightarrow>
   p_onExit (pseudo_step op s) \<noteq> Pending \<longrightarrow> exited (pseudo_step op s)"
  by (cases op)
    (auto simp add: PseudoPseudoterminal_kill_def onExit_settles_def finally_exited_def
      finally_clear_def PseudoPseudoterminal_pipe_def)

lemma text_step_flag:
  assumes "p_onExit s \<noteq> Pending \<longrightarrow> exited s"
  shows "p_onExit (text_step op s) \<noteq> Pending \<longrightarrow> exited (text_step op s)"
proof (cases op)
  case (CallPipe a t)
  then show ?thesis
    using assms
    by (cases a)
      (auto simp add: TextPseudoterminal_pipe_def PseudoPseudoterminal_pipe_def
        TextPseudoterminal_rewrite_def)
qed (use assms in \<open>auto simp add: PseudoPseudoterminal_kill_def onExit_settles_def
    finally_exited_def finally_clear_def\<close>)

lemma console_step_flag:
  assumes "p_onExit s \<noteq> Pending \<longrightarrow> exited s"
  shows "p_onExit (console_step op s) \<noteq> Pending \<longrightarrow> exited (console_step op s)"
proof (cases op)
  case (CallPipe a t)
  then show ?thesis
    using assms
    by (cases a)
      (auto simp add: DeveloperConsolePseudoterminal_pipe_def PseudoPseudoterminal_pipe_def
        DeveloperConsolePseudoterminal_write_def)
qed (use assms in \<open>auto simp add: PseudoPseudoterminal_kill_def onExit_settles_def
    finally_exited_def finally_clear_def\<close>)

lemma pseudo_run_flag:
  "(p_onExit s \<noteq> Pending \<longrightarrow> exited s) \<Longrightarrow>
   p_onExit (fold pseudo_step ops s) \<noteq> Pending \<longrightarrow> exited (fold pseudo_step ops s)"
proof (induction ops arbitrary: s)
  case Nil
  then show ?case by simp
next
  case (Cons op ops)
  show ?case
    using Cons.IH[OF pseudo_step_flag[OF Cons.prems, of op]] by simp
qed

lemma text_run_flag:
  "(p_onExit s \<noteq> Pending \<longrightarrow> exited s) \<Longrightarrow>
   p_onExit (fold text_step ops s) \<noteq> Pending \<longrightarrow> exited (fold text_step ops s)"
proof (induction ops arbitrary: s)
  case Nil
  then show ?case by simp
next
  case (Cons op ops)
  show ?case
    using Cons.IH[OF text_step_flag[OF Cons.prems, of op]] by simp
qed

lemma console_run_flag:
  "(p_onExit s \<noteq> Pending \<longrightarrow> exited s) \<Longrightarrow>
   p_onExit (fold console_step ops s) \<noteq> Pending \<longrightarrow> exited (fold console_step ops s)"
proof (induction ops arbitrary: s)
  case Nil
  then show ?case by simp
next
  case (Cons op ops)
  show ?case
    using Cons.IH[OF console_step_flag[OF Cons.prems, of op]] by simp
qed

lemma pipe_exited_throws:
  "exited s \<Longrightarrow> PseudoPseudoterminal_pipe t s = (Thrown (Error []), t, s)"
  "exited x \<Longrightarrow> TextPseudoterminal_pipe acquired t x = (Thrown (Error []), t, x)"
  "exited c \<Longrightarrow> DeveloperConsolePseudoterminal_pipe acquired t c = (Thrown (Error []), t, c)"
  by (simp_all add: PseudoPseudoterminal_pipe_def TextPseudoterminal_pipe_def
      DeveloperConsolePseudoterminal_pipe_def)

text \<open>
  C2, as the code has it. \<^verbatim>\<open>pipe(terminal)\<close> on a session whose \<open>exited\<close> flag is set throws,
  for the abstract class, the text session and the developer console alike, and the
  display surface and the session are exactly as before the call: no addon, no listener,
  no write, no registration. On every run of a session of the family that starts with
  \<^verbatim>\<open>onExit\<close> pending, once \<^verbatim>\<open>onExit\<close> has settled the flag is set, so \<^verbatim>\<open>pipe\<close> after the exit
  future has settled throws. \<^verbatim>\<open>kill()\<close> itself only resolves the promise of \<^verbatim>\<open>#exit\<close>: the
  flag and the registered surfaces are as before, until the callbacks on the exit future
  run, which set the flag, clear the surfaces and settle \<^verbatim>\<open>onExit\<close>. On a session whose
  flag is not set, the abstract class's \<^verbatim>\<open>pipe\<close> answers normally, loads the disposer addon
  and registers the surface; the subclasses register the surface too, and their answer
  is what drawing under the session lock answers: normal when the lock is acquired, the
  lock's error when it is refused.
\<close>

theorem PseudoPseudoterminal_pipe_after_exit:
  "(exited s \<longrightarrow> PseudoPseudoterminal_pipe t s = (Thrown (Error []), t, s)) \<and>
   (exited x \<longrightarrow> TextPseudoterminal_pipe acquired t x = (Thrown (Error []), t, x)) \<and>
   (exited c \<longrightarrow> DeveloperConsolePseudoterminal_pipe acquired t c = (Thrown (Error []), t, c)) \<and>
   (p_onExit b = Pending \<longrightarrow> p_onExit (fold pseudo_step ops b) \<noteq> Pending \<longrightarrow>
      PseudoPseudoterminal_pipe t (fold pseudo_step ops b) =
        (Thrown (Error []), t, fold pseudo_step ops b)) \<and>
   (p_onExit x = Pending \<longrightarrow> p_onExit (fold text_step ops x) \<noteq> Pending \<longrightarrow>
      TextPseudoterminal_pipe acquired t (fold text_step ops x) =
        (Thrown (Error []), t, fold text_step ops x)) \<and>
   (p_onExit c = Pending \<longrightarrow> p_onExit (fold console_step ops c) \<noteq> Pending \<longrightarrow>
      DeveloperConsolePseudoterminal_pipe acquired t (fold console_step ops c) =
        (Thrown (Error []), t, fold console_step ops c)) \<and>
   p_exit (PseudoPseudoterminal_kill s) = resolve EXIT_SUCCESS (p_exit s) \<and>
   exited (PseudoPseudoterminal_kill s) = exited s \<and>
   terminals (PseudoPseudoterminal_kill s) = terminals s \<and>
   p_onExit (PseudoPseudoterminal_kill s) = p_onExit s \<and>
   (p_exit s \<noteq> Pending \<longrightarrow> p_onExit s = Pending \<longrightarrow>
      exited (onExit_settles s) \<and> terminals (onExit_settles s) = [] \<and>
      p_onExit (onExit_settles s) = p_exit s) \<and>
   (\<not> exited s \<longrightarrow>
      PseudoPseudoterminal_pipe t s =
        (Done, t\<lparr>t_addons := t_addons t @ [DisposerAddon RemoveTerminal]\<rparr>,
         s\<lparr>terminals := terminals s @ [t_id t]\<rparr>)) \<and>
   (\<not> exited x \<longrightarrow>
      fst (TextPseudoterminal_pipe acquired t x) = acquired \<and>
      terminals (snd (snd (TextPseudoterminal_pipe acquired t x))) = terminals x @ [t_id t]) \<and>
   (\<not> exited c \<longrightarrow>
      fst (DeveloperConsolePseudoterminal_pipe acquired t c) = acquired \<and>
      terminals (snd (snd (DeveloperConsolePseudoterminal_pipe acquired t c)))
        = terminals c @ [t_id t])"
proof (intro conjI impI)
  assume "p_onExit b = Pending" "p_onExit (fold pseudo_step ops b) \<noteq> Pending"
  then have "exited (fold pseudo_step ops b)"
    using pseudo_run_flag[of b ops] by simp
  then show "PseudoPseudoterminal_pipe t (fold pseudo_step ops b) =
        (Thrown (Error []), t, fold pseudo_step ops b)"
    by (rule pipe_exited_throws)
next
  assume "p_onExit x = Pending" "p_onExit (fold text_step ops x) \<noteq> Pending"
  then have "exited (fold text_step ops x)"
    using text_run_flag[of x ops] by simp
  then show "TextPseudoterminal_pipe acquired t (fold text_step ops x) =
        (Thrown (Error []), t, fold text_step ops x)"
    by (rule pipe_exited_throws)
next
  assume "p_onExit c = Pending" "p_onExit (fold console_step ops c) \<noteq> Pending"
  then have "exited (fold console_step ops c)"
    using console_run_flag[of c ops] by simp
  then show "DeveloperConsolePseudoterminal_pipe acquired t (fold console_step ops c) =
        (Thrown (Error []), t, fold console_step ops c)"
    by (rule pipe_exited_throws)
next
  assume "\<not> exited x"
  then show "fst (TextPseudoterminal_pipe acquired t x) = acquired"
    "terminals (snd (snd (TextPseudoterminal_pipe acquired t x))) = terminals x @ [t_id t]"
    by (cases acquired; simp add: TextPseudoterminal_pipe_def PseudoPseudoterminal_pipe_def
        TextPseudoterminal_rewrite_def)+
next
  assume "\<not> exited c"
  then show "fst (DeveloperConsolePseudoterminal_pipe acquired t c) = acquired"
    "terminals (snd (snd (DeveloperConsolePseudoterminal_pipe acquired t c)))
        = terminals c @ [t_id t]"
    by (cases acquired; simp add: DeveloperConsolePseudoterminal_pipe_def
        PseudoPseudoterminal_pipe_def DeveloperConsolePseudoterminal_write_def)+
qed (simp_all add: pipe_exited_throws PseudoPseudoterminal_kill_def onExit_settles_def
    finally_exited_def finally_clear_def PseudoPseudoterminal_pipe_def)

theorem PseudoPseudoterminal_pipe_after_exit_witness:
  "p_onExit pseudo0 = Pending \<and> p_onExit text0 = Pending \<and> p_onExit console0 = Pending \<and>
   p_onExit (fold pseudo_step [CallPipe Done terminal0, CallKill, Callbacks] pseudo0)
     = Resolved EXIT_SUCCESS \<and>
   exited (fold pseudo_step [CallPipe Done terminal0, CallKill, Callbacks] pseudo0) \<and>
   fst (PseudoPseudoterminal_pipe terminal0
     (fold pseudo_step [CallPipe Done terminal0, CallKill, Callbacks] pseudo0))
     = Thrown (Error []) \<and>
   p_onExit (fold text_step [CallPipe Done terminal0, CallKill, Callbacks] text0)
     = Resolved EXIT_SUCCESS \<and>
   TextPseudoterminal_pipe Done terminal0
     (fold text_step [CallPipe Done terminal0, CallKill, Callbacks] text0)
     = (Thrown (Error []), terminal0,
        fold text_step [CallPipe Done terminal0, CallKill, Callbacks] text0) \<and>
   p_onExit (fold console_step [CallPipe Done terminal0, CallKill, Callbacks] console0)
     = Resolved EXIT_SUCCESS \<and>
   DeveloperConsolePseudoterminal_pipe Done terminal0
     (fold console_step [CallPipe Done terminal0, CallKill, Callbacks] console0)
     = (Thrown (Error []), terminal0,
        fold console_step [CallPipe Done terminal0, CallKill, Callbacks] console0) \<and>
   p_exit (PseudoPseudoterminal_kill pseudo0) \<noteq> Pending \<and>
   p_onExit (PseudoPseudoterminal_kill pseudo0) = Pending \<and>
   exited (onExit_settles (PseudoPseudoterminal_kill pseudo0)) \<and>
   \<not> exited pseudo0 \<and> \<not> exited text0 \<and> \<not> exited console0 \<and>
   fst (PseudoPseudoterminal_pipe terminal0 pseudo0) = Done \<and>
   terminals (snd (snd (PseudoPseudoterminal_pipe terminal0 pseudo0))) = [7] \<and>
   fst (TextPseudoterminal_pipe Done terminal0 text0) = Done \<and>
   terminals (snd (snd (TextPseudoterminal_pipe Done terminal0 text0))) = [7] \<and>
   fst (DeveloperConsolePseudoterminal_pipe Done terminal0 console0) = Done \<and>
   terminals (snd (snd (DeveloperConsolePseudoterminal_pipe Done terminal0 console0))) = [7]"
proof -
  let ?ops = "[CallPipe Done terminal0, CallKill, Callbacks]"
  have live: "p_onExit pseudo0 = Pending" "p_onExit text0 = Pending" "p_onExit console0 = Pending"
    "\<not> exited pseudo0" "\<not> exited text0" "\<not> exited console0"
    "terminals pseudo0 = []" "terminals text0 = []" "terminals console0 = []" "t_id terminal0 = 7"
    by (simp_all add: pseudo0_def text0_def console0_def terminal0_def)
  have killed: "p_exit (PseudoPseudoterminal_kill pseudo0) \<noteq> Pending"
    "p_onExit (PseudoPseudoterminal_kill pseudo0) = Pending"
    by (simp_all add: PseudoPseudoterminal_kill_def pseudo0_def resolve_def)
  have settled:
    "p_onExit (fold pseudo_step ?ops pseudo0) = Resolved EXIT_SUCCESS"
    "exited (fold pseudo_step ?ops pseudo0)"
    "p_onExit (fold text_step ?ops text0) = Resolved EXIT_SUCCESS"
    "p_onExit (fold console_step ?ops console0) = Resolved EXIT_SUCCESS"
    by (simp_all add: pseudo0_def text0_def console0_def terminal0_def
        PseudoPseudoterminal_pipe_def TextPseudoterminal_pipe_def TextPseudoterminal_rewrite_def
        DeveloperConsolePseudoterminal_pipe_def DeveloperConsolePseudoterminal_write_def
        PseudoPseudoterminal_kill_def onExit_settles_def finally_exited_def finally_clear_def
        resolve_def)
  have ne: "p_onExit (fold pseudo_step ?ops pseudo0) \<noteq> Pending"
    "p_onExit (fold text_step ?ops text0) \<noteq> Pending"
    "p_onExit (fold console_step ?ops console0) \<noteq> Pending"
    using settled by simp_all
  note t = PseudoPseudoterminal_pipe_after_exit
  have a: "PseudoPseudoterminal_pipe terminal0 (fold pseudo_step ?ops pseudo0) =
        (Thrown (Error []), terminal0, fold pseudo_step ?ops pseudo0)"
    "TextPseudoterminal_pipe Done terminal0 (fold text_step ?ops text0)
     = (Thrown (Error []), terminal0, fold text_step ?ops text0)"
    "DeveloperConsolePseudoterminal_pipe Done terminal0 (fold console_step ?ops console0)
     = (Thrown (Error []), terminal0, fold console_step ?ops console0)"
    using t [where s = pseudo0 and b = pseudo0 and x = text0 and c = console0 and ops = ?ops
          and t = terminal0 and acquired = Done] live(1-3) ne
    by blast+
  have b: "exited (onExit_settles (PseudoPseudoterminal_kill pseudo0))"
    using t [where s = "PseudoPseudoterminal_kill pseudo0"] killed by blast
  have c: "fst (PseudoPseudoterminal_pipe terminal0 pseudo0) = Done"
    "terminals (snd (snd (PseudoPseudoterminal_pipe terminal0 pseudo0))) = [7]"
    "fst (TextPseudoterminal_pipe Done terminal0 text0) = Done"
    "terminals (snd (snd (TextPseudoterminal_pipe Done terminal0 text0))) = [7]"
    "fst (DeveloperConsolePseudoterminal_pipe Done terminal0 console0) = Done"
    "terminals (snd (snd (DeveloperConsolePseudoterminal_pipe Done terminal0 console0))) = [7]"
    using t [where s = pseudo0 and x = text0 and c = console0 and t = terminal0
          and acquired = Done] live
    by simp_all
  have d: "fst (PseudoPseudoterminal_pipe terminal0 (fold pseudo_step ?ops pseudo0))
     = Thrown (Error [])"
    by (simp only: a fst_conv)
  show ?thesis
    using live(1-6) killed settled a(2,3) b c d by (intro conjI)
qed

theorem PseudoPseudoterminal_pipe_counterexample:
  "\<not> exited text0 \<and>
   fst (TextPseudoterminal_pipe lock_refused terminal0 text0)
     = Thrown (Error ''Too many pending tasks in queue sync'') \<and>
   \<not> exited console0 \<and>
   fst (DeveloperConsolePseudoterminal_pipe lock_refused terminal0 console0)
     = Thrown (Error ''Too many pending tasks in queue sync'') \<and>
   p_exit (PseudoPseudoterminal_kill pseudo0) = Resolved EXIT_SUCCESS \<and>
   fst (PseudoPseudoterminal_pipe terminal0 (PseudoPseudoterminal_kill pseudo0)) = Done \<and>
   terminals (snd (snd (PseudoPseudoterminal_pipe terminal0 (PseudoPseudoterminal_kill pseudo0))))
     = [7]"
  by (simp add: text0_def console0_def pseudo0_def terminal0_def lock_refused_def
      TextPseudoterminal_pipe_def DeveloperConsolePseudoterminal_pipe_def
      PseudoPseudoterminal_pipe_def TextPseudoterminal_rewrite_def
      DeveloperConsolePseudoterminal_write_def PseudoPseudoterminal_kill_def resolve_def)

section \<open>Properties of the developer console\<close>

lemma last_entry_last: "h \<noteq> [] \<Longrightarrow> last_entry h = last h"
  by (simp add: last_entry_def js_at_def Let_def last_conv_nth nat_diff_distrib')

lemma js_at_rem:
  assumes "xs \<noteq> []"
  shows "js_at xs (js_rem a (int (length xs))) = Some (xs ! nat (a mod int (length xs)))"
proof -
  let ?n = "int (length xs)"
  have n: "0 < ?n" using assms by simp
  show ?thesis
  proof (cases "0 \<le> a")
    case True
    then have "js_rem a ?n = a mod ?n"
      by (cases "a = 0") (simp_all add: js_rem_def)
    moreover have "\<not> a mod ?n < 0" "a mod ?n < ?n"
      using n by (simp_all add: not_less)
    ultimately show ?thesis by (simp add: js_at_def Let_def)
  next
    case False
    then have neg: "a < 0" by simp
    then have r: "js_rem a ?n = - ((- a) mod ?n)"
      by (simp add: js_rem_def)
    show ?thesis
    proof (cases "a mod ?n = 0")
      case True
      then have "(- a) mod ?n = 0" by (simp add: zmod_zminus1_eq_if)
      then show ?thesis using r True n by (simp add: js_at_def Let_def)
    next
      case nz: False
      then have e: "(- a) mod ?n = ?n - a mod ?n" by (simp add: zmod_zminus1_eq_if)
      have "0 \<le> a mod ?n" using n by simp
      then have b: "0 < a mod ?n" using nz by linarith
      have b': "a mod ?n < ?n" using n by simp
      have "js_rem a ?n = a mod ?n - ?n" using r e by simp
      then show ?thesis using b b' by (simp add: js_at_def Let_def)
    qed
  qed
qed

lemma console0_nav:
  "DeveloperConsolePseudoterminal_navigate Done ArrowUp console0
     = console0\<lparr>historyIndex := 1, buffer := ''b''\<rparr>"
  "DeveloperConsolePseudoterminal_navigate Done ArrowUp (console0\<lparr>historyIndex := 1, buffer := ''b''\<rparr>)
     = console0\<lparr>historyIndex := 0, buffer := ''a''\<rparr>"
  "DeveloperConsolePseudoterminal_navigate Done ArrowDown (console0\<lparr>historyIndex := 0, buffer := ''a''\<rparr>)
     = console0\<lparr>historyIndex := 1, buffer := ''b''\<rparr>"
  by (simp_all add: DeveloperConsolePseudoterminal_navigate_def console0_def last_entry_def
      js_at_def js_rem_def includes_newline_def LF_def Let_def)

lemma codeRet_nonempty: "codeRet_of code (Some st) \<noteq> []"
  by (simp add: codeRet_of_def)

lemma example_parses:
  "example_parse ''1+1'' = Inr (one_stmt 3)"
  "example_parse ''1+1;'' = Inr (one_stmt 4)"
  "example_parse ''let x = 1'' = Inr (one_stmt 9)"
  "one_stmt n \<noteq> []"
  by (simp_all add: example_parse_def one_stmt_def)

lemma example_scripts:
  "codeRet_of ''1+1'' (Some (last (one_stmt 3))) = ''return [(1+1)]''"
  "codeRet_of ''1+1;'' (Some (last (one_stmt 4))) = ''return [(1+1;)]''"
  "codeRet_of ''let x = 1'' (Some (last (one_stmt 9))) = ''return [(let x = 1)]''"
  by (simp_all add: codeRet_of_def one_stmt_def)

text \<open>
  C4. When the history is not empty and its last entry holds no newline,
  \<^verbatim>\<open>ArrowUp\<close> (\<^verbatim>\<open>ArrowDown\<close>) sets the history index to the remainder \<^verbatim>\<open>%\<close> of the index
  minus (plus) one by the length, leaves the history as it is and sets the buffer to the
  entry \<^verbatim>\<open>at\<close> that index, which is the entry at the index minus (plus) one modulo the
  length; when the last entry holds a newline the key changes nothing. On the history
  \<^verbatim>\<open>["a", "b", ""]\<close> with the index on the open entry, \<^verbatim>\<open>ArrowUp\<close>, \<^verbatim>\<open>ArrowUp\<close>,
  \<^verbatim>\<open>ArrowDown\<close> leave \<^verbatim>\<open>"b"\<close> in the buffer.
\<close>

theorem DeveloperConsolePseudoterminal_navigate_history:
  "(history s \<noteq> [] \<longrightarrow> \<not> includes_newline (last (history s)) \<longrightarrow>
      historyIndex (DeveloperConsolePseudoterminal_navigate Done k s) =
        js_rem (historyIndex s + (if k = ArrowDown then 1 else - 1)) (int (length (history s))) \<and>
      buffer (DeveloperConsolePseudoterminal_navigate Done k s) =
        history s ! nat ((historyIndex s + (if k = ArrowDown then 1 else - 1))
                          mod int (length (history s))) \<and>
      history (DeveloperConsolePseudoterminal_navigate Done k s) = history s) \<and>
   (history s \<noteq> [] \<longrightarrow> includes_newline (last (history s)) \<longrightarrow>
      DeveloperConsolePseudoterminal_navigate acquired k s = s)"
  by (simp add: DeveloperConsolePseudoterminal_navigate_def last_entry_last js_at_rem Let_def)

theorem DeveloperConsolePseudoterminal_navigate_history_witness:
  "history console0 \<noteq> [] \<and> \<not> includes_newline (last (history console0)) \<and>
   buffer (DeveloperConsolePseudoterminal_navigate Done ArrowUp console0) = ''b'' \<and>
   buffer (DeveloperConsolePseudoterminal_navigate Done ArrowDown
     (DeveloperConsolePseudoterminal_navigate Done ArrowUp
       (DeveloperConsolePseudoterminal_navigate Done ArrowUp console0))) = ''b'' \<and>
   includes_newline (last (history (console0\<lparr>history := [''a'', [CHR ''x'', LF]]\<rparr>))) \<and>
   DeveloperConsolePseudoterminal_navigate Done ArrowUp (console0\<lparr>history := [''a'', [CHR ''x'', LF]]\<rparr>)
     = console0\<lparr>history := [''a'', [CHR ''x'', LF]]\<rparr>"
proof -
  have a: "history console0 \<noteq> []" "\<not> includes_newline (last (history console0))"
    by (simp_all add: console0_def includes_newline_def LF_def)
  have b: "history (console0\<lparr>history := [''a'', [CHR ''x'', LF]]\<rparr>) \<noteq> []"
    "includes_newline (last (history (console0\<lparr>history := [''a'', [CHR ''x'', LF]]\<rparr>)))"
    by (simp_all add: includes_newline_def)
  have c: "buffer (DeveloperConsolePseudoterminal_navigate Done ArrowUp console0) = ''b''"
    using DeveloperConsolePseudoterminal_navigate_history [of console0 ArrowUp Done] a
    by (simp add: console0_def)
  have d: "buffer (DeveloperConsolePseudoterminal_navigate Done ArrowDown
     (DeveloperConsolePseudoterminal_navigate Done ArrowUp
       (DeveloperConsolePseudoterminal_navigate Done ArrowUp console0))) = ''b''"
    by (simp add: console0_nav)
  have e: "DeveloperConsolePseudoterminal_navigate Done ArrowUp
       (console0\<lparr>history := [''a'', [CHR ''x'', LF]]\<rparr>)
     = console0\<lparr>history := [''a'', [CHR ''x'', LF]]\<rparr>"
    using DeveloperConsolePseudoterminal_navigate_history
        [of "console0\<lparr>history := [''a'', [CHR ''x'', LF]]\<rparr>" ArrowUp Done] b
    by simp
  show ?thesis
    using a b(2) c d e by (intro conjI)
qed

text \<open>
  C3, as the code has it. \<^verbatim>\<open>eval\<close> empties the buffer, commits the code to the history and
  logs the code; a parse error is logged. Otherwise the text from the start of the last
  statement to the end of the code is wrapped into \<^verbatim>\<open>return [(\<close> and \<^verbatim>\<open>)]\<close>, and what is
  logged next depends on what evaluating that rewritten script answers. A one-element
  array: its element is logged. A syntax error: it goes to \<^verbatim>\<open>console.debug\<close> and the code
  is evaluated directly, for its side effects only; then \<^verbatim>\<open>undefined\<close> is logged (the
  result \<^verbatim>\<open>[]\<close> is not \<^verbatim>\<open>null\<close>, and \<^verbatim>\<open>ret[0]\<close> of it is logged), or the error of the direct
  evaluation. Any other error, or any other value: an error is logged and the code is not
  evaluated again. A program with no statement is evaluated directly. In every case
  \<^verbatim>\<open>eval\<close> itself answers normally.
\<close>

theorem DeveloperConsolePseudoterminal_eval_logs:
  "(parse (buffer s) = Inr body \<longrightarrow> body \<noteq> [] \<longrightarrow>
    script = take (st_start (last body)) (buffer s) @ ''return [(''
               @ drop (st_start (last body)) (buffer s) @ '')]'' \<longrightarrow>
    deletions = codeRetDeletions_of (Some (last body)) \<longrightarrow>
      (run script deletions = Inr (JsArray [v]) \<longrightarrow>
         console (snd (DeveloperConsolePseudoterminal_eval Done parse run str s)) =
           console s @ [ConsoleLog (JsString (buffer s)), ConsoleLog v]) \<and>
      (run script deletions = Inr r \<longrightarrow> (\<forall>v'. r \<noteq> JsArray [v']) \<longrightarrow>
         console (snd (DeveloperConsolePseudoterminal_eval Done parse run str s)) =
           console s @ [ConsoleLog (JsString (buffer s)), ConsoleError (Error (str r))]) \<and>
      (run script deletions = Inl (SyntaxError m) \<longrightarrow> run (buffer s) [] = Inr u \<longrightarrow>
         console (snd (DeveloperConsolePseudoterminal_eval Done parse run str s)) =
           console s @ [ConsoleLog (JsString (buffer s)), ConsoleDebug (SyntaxError m),
                        ConsoleLog JsUndefined]) \<and>
      (run script deletions = Inl (SyntaxError m) \<longrightarrow> run (buffer s) [] = Inl e \<longrightarrow>
         console (snd (DeveloperConsolePseudoterminal_eval Done parse run str s)) =
           console s @ [ConsoleLog (JsString (buffer s)), ConsoleDebug (SyntaxError m),
                        ConsoleError e]) \<and>
      (run script deletions = Inl e \<longrightarrow> (\<forall>m'. e \<noteq> SyntaxError m') \<longrightarrow>
         console (snd (DeveloperConsolePseudoterminal_eval Done parse run str s)) =
           console s @ [ConsoleLog (JsString (buffer s)), ConsoleError e])) \<and>
   (parse (buffer s) = Inr [] \<longrightarrow>
      (run (buffer s) [] = Inr u \<longrightarrow>
         console (snd (DeveloperConsolePseudoterminal_eval Done parse run str s)) =
           console s @ [ConsoleLog (JsString (buffer s)), ConsoleLog JsUndefined]) \<and>
      (run (buffer s) [] = Inl e \<longrightarrow>
         console (snd (DeveloperConsolePseudoterminal_eval Done parse run str s)) =
           console s @ [ConsoleLog (JsString (buffer s)), ConsoleError e])) \<and>
   (parse (buffer s) = Inl e \<longrightarrow>
      console (snd (DeveloperConsolePseudoterminal_eval Done parse run str s)) =
        console s @ [ConsoleLog (JsString (buffer s)), ConsoleError e]) \<and>
   fst (DeveloperConsolePseudoterminal_eval Done parse run str s) = Done \<and>
   buffer (snd (DeveloperConsolePseudoterminal_eval Done parse run str s)) = [] \<and>
   history (snd (DeveloperConsolePseudoterminal_eval Done parse run str s)) = take (length (history s) - 1) (history s) @ [buffer s, []] \<and>
   historyIndex (snd (DeveloperConsolePseudoterminal_eval Done parse run str s)) = int (length (history s))"
proof -
  note defs = DeveloperConsolePseudoterminal_eval_def Let_def evaluate_both_def
    evaluate_direct_def first_or_undefined_def
  have frame: "fst (DeveloperConsolePseudoterminal_eval Done parse run str s) = Done \<and> buffer (snd (DeveloperConsolePseudoterminal_eval Done parse run str s)) = [] \<and>
      history (snd (DeveloperConsolePseudoterminal_eval Done parse run str s)) = take (length (history s) - 1) (history s) @ [buffer s, []] \<and>
      historyIndex (snd (DeveloperConsolePseudoterminal_eval Done parse run str s)) = int (length (history s))"
    by (simp add: DeveloperConsolePseudoterminal_eval_def Let_def
        split: sum.splits prod.splits option.splits)
  have perr: "console (snd (DeveloperConsolePseudoterminal_eval Done parse run str s)) =
        console s @ [ConsoleLog (JsString (buffer s)), ConsoleError e]"
    if "parse (buffer s) = Inl e"
    using that by (simp add: defs)
  have empty: "(run (buffer s) [] = Inr u \<longrightarrow>
         console (snd (DeveloperConsolePseudoterminal_eval Done parse run str s)) =
           console s @ [ConsoleLog (JsString (buffer s)), ConsoleLog JsUndefined]) \<and>
      (run (buffer s) [] = Inl e \<longrightarrow>
         console (snd (DeveloperConsolePseudoterminal_eval Done parse run str s)) =
           console s @ [ConsoleLog (JsString (buffer s)), ConsoleError e])"
    if "parse (buffer s) = Inr []"
    using that by (simp add: defs codeRet_of_def)
  have main: "(run script deletions = Inr (JsArray [v]) \<longrightarrow>
         console (snd (DeveloperConsolePseudoterminal_eval Done parse run str s)) =
           console s @ [ConsoleLog (JsString (buffer s)), ConsoleLog v]) \<and>
      (run script deletions = Inr r \<longrightarrow> (\<forall>v'. r \<noteq> JsArray [v']) \<longrightarrow>
         console (snd (DeveloperConsolePseudoterminal_eval Done parse run str s)) =
           console s @ [ConsoleLog (JsString (buffer s)), ConsoleError (Error (str r))]) \<and>
      (run script deletions = Inl (SyntaxError m) \<longrightarrow> run (buffer s) [] = Inr u \<longrightarrow>
         console (snd (DeveloperConsolePseudoterminal_eval Done parse run str s)) =
           console s @ [ConsoleLog (JsString (buffer s)), ConsoleDebug (SyntaxError m),
                        ConsoleLog JsUndefined]) \<and>
      (run script deletions = Inl (SyntaxError m) \<longrightarrow> run (buffer s) [] = Inl e \<longrightarrow>
         console (snd (DeveloperConsolePseudoterminal_eval Done parse run str s)) =
           console s @ [ConsoleLog (JsString (buffer s)), ConsoleDebug (SyntaxError m),
                        ConsoleError e]) \<and>
      (run script deletions = Inl e \<longrightarrow> (\<forall>m'. e \<noteq> SyntaxError m') \<longrightarrow>
         console (snd (DeveloperConsolePseudoterminal_eval Done parse run str s)) =
           console s @ [ConsoleLog (JsString (buffer s)), ConsoleError e])"
    if p: "parse (buffer s) = Inr body" "body \<noteq> []"
      "script = take (st_start (last body)) (buffer s) @ ''return [(''
               @ drop (st_start (last body)) (buffer s) @ '')]''"
      "deletions = codeRetDeletions_of (Some (last body))"
  proof -
    have sc: "codeRet_of (buffer s) (Some (last body)) = script"
      using p(3) by (simp add: codeRet_of_def)
    have ne: "script \<noteq> []" using p(3) by simp
    have c1: "console (snd (DeveloperConsolePseudoterminal_eval Done parse run str s)) =
           console s @ [ConsoleLog (JsString (buffer s)), ConsoleLog v]"
      if "run script deletions = Inr (JsArray [v])"
      using that p(1,2,4) sc ne by (simp add: defs)
    have c2: "console (snd (DeveloperConsolePseudoterminal_eval Done parse run str s)) =
           console s @ [ConsoleLog (JsString (buffer s)), ConsoleError (Error (str r))]"
      if "run script deletions = Inr r" "\<forall>v'. r \<noteq> JsArray [v']"
      using that p(1,2,4) sc ne
      by (simp add: defs split: js_value.splits list.splits)
    have c3: "console (snd (DeveloperConsolePseudoterminal_eval Done parse run str s)) =
           console s @ [ConsoleLog (JsString (buffer s)), ConsoleDebug (SyntaxError m),
                        ConsoleLog JsUndefined]"
      if "run script deletions = Inl (SyntaxError m)" "run (buffer s) [] = Inr u"
      using that p(1,2,4) sc ne by (simp add: defs)
    have c4: "console (snd (DeveloperConsolePseudoterminal_eval Done parse run str s)) =
           console s @ [ConsoleLog (JsString (buffer s)), ConsoleDebug (SyntaxError m),
                        ConsoleError e]"
      if "run script deletions = Inl (SyntaxError m)" "run (buffer s) [] = Inl e"
      using that p(1,2,4) sc ne by (simp add: defs)
    have c5: "console (snd (DeveloperConsolePseudoterminal_eval Done parse run str s)) =
           console s @ [ConsoleLog (JsString (buffer s)), ConsoleError e]"
      if "run script deletions = Inl e" "\<forall>m'. e \<noteq> SyntaxError m'"
      using that p(1,2,4) sc ne by (cases e) (simp_all add: defs)
    show ?thesis using c1 c2 c3 c4 c5 by blast
  qed
  show ?thesis using frame perr empty main by blast
qed

theorem DeveloperConsolePseudoterminal_eval_logs_witness:
  "example_parse ''1+1'' = Inr (one_stmt 3) \<and> one_stmt 3 \<noteq> [] \<and>
   example_run ''return [(1+1)]'' (codeRetDeletions_of (Some (last (one_stmt 3))))
     = Inr (JsArray [JsNumber 2]) \<and>
   console (snd (DeveloperConsolePseudoterminal_eval Done example_parse example_run
      example_String (console0\<lparr>buffer := ''1+1''\<rparr>)))
     = [ConsoleLog (JsString ''1+1''), ConsoleLog (JsNumber 2)] \<and>
   example_parse ''let x = 1'' = Inr (one_stmt 9) \<and>
   example_run ''return [(let x = 1)]'' (codeRetDeletions_of (Some (last (one_stmt 9))))
     = Inl (SyntaxError ''Unexpected identifier'') \<and>
   example_run ''let x = 1'' [] = Inr JsUndefined \<and>
   console (snd (DeveloperConsolePseudoterminal_eval Done example_parse example_run
      example_String (console0\<lparr>buffer := ''let x = 1''\<rparr>))) =
     [ConsoleLog (JsString ''let x = 1''), ConsoleDebug (SyntaxError ''Unexpected identifier''),
      ConsoleLog JsUndefined] \<and>
   console (snd (DeveloperConsolePseudoterminal_eval Done (\<lambda>c. Inl (SyntaxError ''Unexpected token''))
      example_run example_String (console0\<lparr>buffer := ''1+''\<rparr>))) =
     [ConsoleLog (JsString ''1+''), ConsoleError (SyntaxError ''Unexpected token'')] \<and>
   history (snd (DeveloperConsolePseudoterminal_eval Done example_parse example_run
      example_String (console0\<lparr>buffer := ''1+1''\<rparr>))) = [''a'', ''b'', ''1+1'', []]"
proof -
  have p1: "example_parse (buffer (console0\<lparr>buffer := ''1+1''\<rparr>)) = Inr (one_stmt 3)"
    and p2: "example_parse (buffer (console0\<lparr>buffer := ''let x = 1''\<rparr>)) = Inr (one_stmt 9)"
    and ne: "one_stmt 3 \<noteq> []" "one_stmt 9 \<noteq> []"
    by (simp_all add: example_parses)
  have q1: "example_parse ''1+1'' = Inr (one_stmt 3)"
    and q2: "example_parse ''let x = 1'' = Inr (one_stmt 9)"
    by (simp_all add: example_parses)
  have s1: "''return [(1+1)]'' = take (st_start (last (one_stmt 3)))
        (buffer (console0\<lparr>buffer := ''1+1''\<rparr>)) @ ''return [(''
        @ drop (st_start (last (one_stmt 3))) (buffer (console0\<lparr>buffer := ''1+1''\<rparr>)) @ '')]''"
    and s2: "''return [(let x = 1)]'' = take (st_start (last (one_stmt 9)))
        (buffer (console0\<lparr>buffer := ''let x = 1''\<rparr>)) @ ''return [(''
        @ drop (st_start (last (one_stmt 9))) (buffer (console0\<lparr>buffer := ''let x = 1''\<rparr>))
        @ '')]''"
    by (simp_all add: one_stmt_def)
  have r1: "example_run ''return [(1+1)]'' (codeRetDeletions_of (Some (last (one_stmt 3))))
     = Inr (JsArray [JsNumber 2])"
    and r2: "example_run ''return [(let x = 1)]'' (codeRetDeletions_of (Some (last (one_stmt 9))))
     = Inl (SyntaxError ''Unexpected identifier'')"
    and r3: "example_run ''let x = 1'' [] = Inr JsUndefined"
    by (simp_all add: example_run_def)
  have c0: "console console0 = []" "history console0 = [''a'', ''b'', []]"
    by (simp_all add: console0_def)
  note t = DeveloperConsolePseudoterminal_eval_logs
  have a: "console (snd (DeveloperConsolePseudoterminal_eval Done example_parse example_run
      example_String (console0\<lparr>buffer := ''1+1''\<rparr>)))
     = [ConsoleLog (JsString ''1+1''), ConsoleLog (JsNumber 2)]"
  proof -
    have "console (snd (DeveloperConsolePseudoterminal_eval Done example_parse example_run
        example_String (console0\<lparr>buffer := ''1+1''\<rparr>)))
      = console (console0\<lparr>buffer := ''1+1''\<rparr>)
        @ [ConsoleLog (JsString (buffer (console0\<lparr>buffer := ''1+1''\<rparr>))),
           ConsoleLog (JsNumber 2)]"
      using t [where s = "console0\<lparr>buffer := ''1+1''\<rparr>" and parse = example_parse
           and run = example_run and str = example_String and body = "one_stmt 3"
           and script = "''return [(1+1)]''"
           and deletions = "codeRetDeletions_of (Some (last (one_stmt 3)))"
           and v = "JsNumber 2"] p1 ne(1) s1 r1
      by blast
    then show ?thesis by (simp add: c0)
  qed
  have b: "console (snd (DeveloperConsolePseudoterminal_eval Done example_parse example_run
      example_String (console0\<lparr>buffer := ''let x = 1''\<rparr>))) =
     [ConsoleLog (JsString ''let x = 1''), ConsoleDebug (SyntaxError ''Unexpected identifier''),
      ConsoleLog JsUndefined]"
  proof -
    have r3': "example_run (buffer (console0\<lparr>buffer := ''let x = 1''\<rparr>)) [] = Inr JsUndefined"
      using r3 by simp
    have "console (snd (DeveloperConsolePseudoterminal_eval Done example_parse example_run
        example_String (console0\<lparr>buffer := ''let x = 1''\<rparr>)))
      = console (console0\<lparr>buffer := ''let x = 1''\<rparr>)
        @ [ConsoleLog (JsString (buffer (console0\<lparr>buffer := ''let x = 1''\<rparr>))),
           ConsoleDebug (SyntaxError ''Unexpected identifier''), ConsoleLog JsUndefined]"
      using t [where s = "console0\<lparr>buffer := ''let x = 1''\<rparr>" and parse = example_parse
           and run = example_run and str = example_String and body = "one_stmt 9"
           and script = "''return [(let x = 1)]''"
           and deletions = "codeRetDeletions_of (Some (last (one_stmt 9)))"
           and m = "''Unexpected identifier''" and u = JsUndefined] p2 ne(2) s2 r2 r3'
      by blast
    then show ?thesis by (simp add: c0)
  qed
  have c: "console (snd (DeveloperConsolePseudoterminal_eval Done
      (\<lambda>c. Inl (SyntaxError ''Unexpected token''))
      example_run example_String (console0\<lparr>buffer := ''1+''\<rparr>))) =
     [ConsoleLog (JsString ''1+''), ConsoleError (SyntaxError ''Unexpected token'')]"
  proof -
    have "console (snd (DeveloperConsolePseudoterminal_eval Done
        (\<lambda>c. Inl (SyntaxError ''Unexpected token''))
        example_run example_String (console0\<lparr>buffer := ''1+''\<rparr>)))
      = console (console0\<lparr>buffer := ''1+''\<rparr>)
        @ [ConsoleLog (JsString (buffer (console0\<lparr>buffer := ''1+''\<rparr>))),
           ConsoleError (SyntaxError ''Unexpected token'')]"
      using t [where s = "console0\<lparr>buffer := ''1+''\<rparr>"
           and parse = "\<lambda>c. Inl (SyntaxError ''Unexpected token'')"
           and run = example_run and str = example_String
           and e = "SyntaxError ''Unexpected token''"]
      by blast
    then show ?thesis by (simp add: c0)
  qed
  have d: "history (snd (DeveloperConsolePseudoterminal_eval Done example_parse example_run
      example_String (console0\<lparr>buffer := ''1+1''\<rparr>))) = [''a'', ''b'', ''1+1'', []]"
  proof -
    have "history (snd (DeveloperConsolePseudoterminal_eval Done example_parse example_run
        example_String (console0\<lparr>buffer := ''1+1''\<rparr>))) =
      take (length (history (console0\<lparr>buffer := ''1+1''\<rparr>)) - 1)
        (history (console0\<lparr>buffer := ''1+1''\<rparr>))
      @ [buffer (console0\<lparr>buffer := ''1+1''\<rparr>), []]"
      using t [where s = "console0\<lparr>buffer := ''1+1''\<rparr>" and parse = example_parse
           and run = example_run and str = example_String]
      by blast
    then show ?thesis by (simp add: c0)
  qed
  show ?thesis
    using q1 q2 ne(1) r1 r2 r3 a b c d by (intro conjI)
qed

theorem DeveloperConsolePseudoterminal_eval_undefined_counterexample:
  "console (snd (DeveloperConsolePseudoterminal_eval Done example_parse example_run
      example_String (console0\<lparr>buffer := ''let x = 1''\<rparr>))) =
     [ConsoleLog (JsString ''let x = 1''), ConsoleDebug (SyntaxError ''Unexpected identifier''),
      ConsoleLog JsUndefined] \<and>
   console (snd (DeveloperConsolePseudoterminal_eval Done example_parse example_run
      example_String (console0\<lparr>buffer := ''1+1;''\<rparr>))) =
     [ConsoleLog (JsString ''1+1;''), ConsoleDebug (SyntaxError ''Unexpected token''),
      ConsoleLog JsUndefined]"
  by (simp add: DeveloperConsolePseudoterminal_eval_def Let_def evaluate_both_def
      evaluate_direct_def example_parses example_run_def example_scripts console0_def
      first_or_undefined_def)

section \<open>Properties of the sessions on a process\<close>

lemma js_index_update:
  "js_index (xs[i := v]) j = (if j = i \<and> i < length xs then Some v else js_index xs j)"
  by (simp add: js_index_def)

lemma js_toString_80_24: "js_toString 80 = ''80''" "js_toString 24 = ''24''"
  by code_simp+

lemma of_char_digit_char: "d < 10 \<Longrightarrow> (of_char (digit_char d) :: nat) = 48 + d"
  by (simp add: digit_char_def)

lemma digit_char_props:
  assumes "d < 10"
  shows "is_digit (digit_char d)" "digit_val (digit_char d) = d"
    "\<not> js_whitespace (digit_char d)" "digit_char d \<noteq> CHR ''-''" "digit_char d \<noteq> CHR ''+''"
proof -
  have v: "(of_char (digit_char d) :: nat) = 48 + d"
    using assms by (rule of_char_digit_char)
  show "is_digit (digit_char d)" using v assms by (simp add: is_digit_def)
  show "digit_val (digit_char d) = d" using v by (simp add: digit_val_def)
  have ne: "\<And>c. (of_char c :: nat) < 48 \<Longrightarrow> digit_char d \<noteq> c"
    using v by auto
  show "\<not> js_whitespace (digit_char d)"
    using ne by (auto simp add: js_whitespace_def)
  show "digit_char d \<noteq> CHR ''-''" using ne[of "CHR ''-''"] by simp
  show "digit_char d \<noteq> CHR ''+''" using ne[of "CHR ''+''"] by simp
qed

lemma digits_chars: "c \<in> set (digits n) \<Longrightarrow> \<exists>d<10. c = digit_char d"
proof (induction n rule: digits.induct)
  case (1 n)
  show ?case
  proof (cases "n < 10")
    case True
    then show ?thesis using "1.prems" by (subst (asm) digits.simps) auto
  next
    case False
    then have "c \<in> set (digits (n div 10)) \<or> c = digit_char (n mod 10)"
      using "1.prems" by (subst (asm) digits.simps) auto
    then show ?thesis
    proof
      assume "c \<in> set (digits (n div 10))"
      then show ?thesis using "1.IH" False by simp
    next
      assume "c = digit_char (n mod 10)"
      then show ?thesis by (intro exI[of _ "n mod 10"]) simp
    qed
  qed
qed

lemma digits_nonempty: "digits n \<noteq> []"
  by (subst digits.simps) simp

lemma digits_val_snoc: "digits_val (ds @ [c]) = 10 * digits_val ds + digit_val c"
  by (simp add: digits_val_def)

lemma digits_val_digits: "digits_val (digits n) = n"
proof (induction n rule: digits.induct)
  case (1 n)
  show ?case
  proof (cases "n < 10")
    case True
    then show ?thesis
      by (subst digits.simps) (simp add: digits_val_def digit_char_props)
  next
    case False
    then have "digits_val (digits n) = 10 * digits_val (digits (n div 10)) + digit_val (digit_char (n mod 10))"
      by (subst digits.simps) (simp add: digits_val_snoc)
    then show ?thesis using "1.IH" False by (simp add: digit_char_props)
  qed
qed

lemma takeWhile_digits: "takeWhile is_digit (digits n) = digits n"
  using digits_chars digit_char_props(1) by (fastforce simp add: takeWhile_eq_all_conv)

lemma hd_digits: "\<exists>d<10. hd (digits n) = digit_char d"
  using digits_chars[of "hd (digits n)" n] digits_nonempty[of n] by simp

lemma last_digits: "\<exists>d<10. last (digits n) = digit_char d"
  using digits_chars[of "last (digits n)" n] digits_nonempty[of n] by simp

lemma js_trim_tail:
  assumes "xs \<noteq> []" "\<not> js_whitespace (hd xs)" "\<not> js_whitespace (last xs)"
    "\<forall>c\<in>set ys. js_whitespace c"
  shows "js_trim (xs @ ys) = xs"
proof -
  have a: "dropWhile js_whitespace (xs @ ys) = xs @ ys"
    using assms(1,2) by (cases xs) simp_all
  have "dropWhile js_whitespace (rev ys @ rev xs) = dropWhile js_whitespace (rev xs)"
    using assms(4) by (simp add: dropWhile_append)
  also have "\<dots> = rev xs"
    using assms(1,3) by (cases "rev xs") (simp_all add: last_rev[symmetric] hd_rev)
  finally show ?thesis using a by (simp add: js_trim_def)
qed

lemma parseInt10_toString: "parseInt10 (js_toString n) = Some n"
proof (cases "n < 0")
  case True
  then show ?thesis
    by (simp add: js_toString_def parseInt10_def js_whitespace_def takeWhile_digits
        digits_nonempty digits_val_digits)
next
  case False
  obtain d where d: "d < 10" "hd (digits (nat n)) = digit_char d"
    using hd_digits by blast
  obtain c r where cr: "digits (nat n) = c # r"
    using digits_nonempty[of "nat n"] by (cases "digits (nat n)") auto
  then have c: "c = digit_char d" using d by simp
  have "dropWhile js_whitespace (digits (nat n)) = digits (nat n)"
    using cr c digit_char_props(3)[OF d(1)] by simp
  moreover have "c \<noteq> CHR ''-''" "c \<noteq> CHR ''+''"
    using c digit_char_props(4,5)[OF d(1)] by simp_all
  ultimately show ?thesis
    using False cr takeWhile_digits[of "nat n"] digits_val_digits[of "nat n"]
    by (simp add: js_toString_def parseInt10_def Let_def)
qed

lemma js_trim_toString:
  assumes "\<forall>c\<in>set ys. js_whitespace c"
  shows "js_trim (js_toString n @ ys) = js_toString n"
proof -
  obtain d where d: "d < 10" "hd (digits (nat \<bar>n\<bar>)) = digit_char d"
    using hd_digits by blast
  obtain d' where d': "d' < 10" "last (digits (nat \<bar>n\<bar>)) = digit_char d'"
    using last_digits by blast
  have ne: "js_toString n \<noteq> []"
    by (simp add: js_toString_def digits_nonempty)
  have h: "\<not> js_whitespace (hd (js_toString n))"
  proof (cases "n < 0")
    case True
    then show ?thesis by (simp add: js_toString_def js_whitespace_def)
  next
    case False
    then have "nat n = nat \<bar>n\<bar>" by simp
    then show ?thesis using False d digit_char_props(3)[OF d(1)] by (simp add: js_toString_def)
  qed
  have "last (js_toString n) = last (digits (nat \<bar>n\<bar>))"
  proof (cases "n < 0")
    case True
    then have "nat (- n) = nat \<bar>n\<bar>" by simp
    then show ?thesis using True by (simp add: js_toString_def digits_nonempty)
  next
    case False
    then have "nat n = nat \<bar>n\<bar>" by simp
    then show ?thesis using False by (simp add: js_toString_def)
  qed
  then have l: "\<not> js_whitespace (last (js_toString n))"
    using d' digit_char_props(3)[OF d'(1)] by simp
  show ?thesis using ne h l assms by (rule js_trim_tail)
qed

lemma parse_echo: "parseInt10 (js_trim (echo_ERRORLEVEL n)) = Some n"
proof -
  have "\<forall>c\<in>set ('' '' @ [CR, LF]). js_whitespace c"
    by (simp add: js_whitespace_def CR_def LF_def)
  then show ?thesis
    unfolding echo_ERRORLEVEL_def by (simp only: js_trim_toString parseInt10_toString)
qed

lemma parse_examples:
  "parseInt10 (js_trim (''3 '' @ [CR, LF])) = Some 3"
  "parseInt10 (js_trim ''ECHO is on.'') = None"
  by (simp_all add: parseInt10_def js_trim_def js_whitespace_def is_digit_def digits_val_def
      digit_val_def CR_def LF_def)

text \<open>
  C5, as the code has it. \<^verbatim>\<open>kill()\<close> of the Unix and of the Windows session answers no
  value. On a running process it delivers one more signal and answers normally; on a
  process that has exited it throws the "error killing pseudoterminal" error and leaves
  the session as it was; when the spawn failed it throws the spawn's error. So a second
  \<^verbatim>\<open>kill()\<close>, made after the process has died, fails.
\<close>

theorem shell_kill_outcome:
  "(u_shell s = Inr p \<longrightarrow> cp_running p \<longrightarrow>
      UnixPseudoterminal_kill s = (Done, s\<lparr>u_shell := Inr (p\<lparr>cp_signals := Suc (cp_signals p)\<rparr>)\<rparr>)) \<and>
   (u_shell s = Inr p \<longrightarrow> \<not> cp_running p \<longrightarrow>
      UnixPseudoterminal_kill s = (Thrown error_killing, s)) \<and>
   (u_shell s = Inl e \<longrightarrow> UnixPseudoterminal_kill s = (Thrown e, s)) \<and>
   (w_shell x = Inr p \<longrightarrow> cp_running p \<longrightarrow>
      WindowsPseudoterminal_kill x = (Done, x\<lparr>w_shell := Inr (p\<lparr>cp_signals := Suc (cp_signals p)\<rparr>)\<rparr>)) \<and>
   (w_shell x = Inr p \<longrightarrow> \<not> cp_running p \<longrightarrow>
      WindowsPseudoterminal_kill x = (Thrown error_killing, x)) \<and>
   (w_shell x = Inl e \<longrightarrow> WindowsPseudoterminal_kill x = (Thrown e, x))"
  by (cases s; cases x)
    (simp add: UnixPseudoterminal_kill_def WindowsPseudoterminal_kill_def process_kill_def)

theorem shell_kill_outcome_witness:
  "u_shell unix0 = Inr process0 \<and> cp_running process0 \<and>
   fst (UnixPseudoterminal_kill unix0) = Done \<and>
   u_shell (unix0\<lparr>u_shell := Inr (process0\<lparr>cp_running := False\<rparr>)\<rparr>)
     = Inr (process0\<lparr>cp_running := False\<rparr>) \<and>
   \<not> cp_running (process0\<lparr>cp_running := False\<rparr>) \<and>
   fst (UnixPseudoterminal_kill (unix0\<lparr>u_shell := Inr (process0\<lparr>cp_running := False\<rparr>)\<rparr>))
     = Thrown error_killing \<and>
   fst (UnixPseudoterminal_kill (unix0\<lparr>u_shell := Inl (Error ''spawn'')\<rparr>)) = Thrown (Error ''spawn'') \<and>
   fst (WindowsPseudoterminal_kill (windows0\<lparr>w_shell := Inr process0\<rparr>)) = Done \<and>
   fst (WindowsPseudoterminal_kill (windows0\<lparr>w_shell := Inr (process0\<lparr>cp_running := False\<rparr>)\<rparr>))
     = Thrown error_killing \<and>
   fst (WindowsPseudoterminal_kill (windows0\<lparr>w_shell := Inl (Error ''spawn'')\<rparr>))
     = Thrown (Error ''spawn'')"
proof -
  have live: "u_shell unix0 = Inr process0" "cp_running process0"
    by (simp_all add: unix0_def process0_def)
  show ?thesis
    using shell_kill_outcome [where s = unix0 and p = process0
        and x = "windows0\<lparr>w_shell := Inr process0\<rparr>"]
      shell_kill_outcome [where s = "unix0\<lparr>u_shell := Inr (process0\<lparr>cp_running := False\<rparr>)\<rparr>"
        and p = "process0\<lparr>cp_running := False\<rparr>"
        and x = "windows0\<lparr>w_shell := Inr (process0\<lparr>cp_running := False\<rparr>)\<rparr>"]
      shell_kill_outcome [where s = "unix0\<lparr>u_shell := Inl (Error ''spawn'')\<rparr>"
        and e = "Error ''spawn''" and x = "windows0\<lparr>w_shell := Inl (Error ''spawn'')\<rparr>"]
      live
    by simp
qed

theorem shell_kill_after_exit_counterexample:
  "fst (UnixPseudoterminal_kill unix0) = Done \<and>
   fst (UnixPseudoterminal_kill
          (UnixPseudoterminal_on_exit None (Some ''SIGTERM'') (snd (UnixPseudoterminal_kill unix0))))
     = Thrown error_killing \<and>
   fst (WindowsPseudoterminal_kill windows0) = Done \<and>
   fst (WindowsPseudoterminal_kill
          (WindowsPseudoterminal_on_exit 0 (Inr ''0'') Done (Some 0) None
             (snd (WindowsPseudoterminal_kill windows0))))
     = Thrown error_killing"
  by (simp add: UnixPseudoterminal_kill_def WindowsPseudoterminal_kill_def process_kill_def
      UnixPseudoterminal_on_exit_def WindowsPseudoterminal_on_exit_def unix0_def windows0_def
      process0_def split_beta)

text \<open>
  C6. When the shell process of a Windows session exits and the exit future is pending:
  if the trimmed contents of the temp file parse as a base-10 integer \<open>n\<close>, the exit
  future resolves to \<open>n\<close>, whatever the console process's own code and signal are; for
  the file the wrapper command writes at error level \<open>n\<close> that is \<open>n\<close>. If they do not
  parse, or the file cannot be read (the error goes to \<^verbatim>\<open>console.debug\<close>), it resolves
  to the console process's own exit code, else its signal, else \<^verbatim>\<open>NaN\<close>. In every case
  the file is read, then the grace delay is slept, then the file is cleaned up; a failing
  cleanup is logged with \<^verbatim>\<open>console.warn\<close> and changes nothing of the exit future.
\<close>

theorem WindowsPseudoterminal_exit_code:
  "(w_shell s = Inr p \<longrightarrow> w_onExit s = Pending \<longrightarrow>
      (parseInt10 (js_trim contents) = Some n \<longrightarrow>
         w_onExit (WindowsPseudoterminal_on_exit wait (Inr contents) cleanup conCode signal s)
           = Resolved (ExitCode n)) \<and>
      w_onExit (WindowsPseudoterminal_on_exit wait (Inr (echo_ERRORLEVEL n)) cleanup conCode signal s)
        = Resolved (ExitCode n) \<and>
      (parseInt10 (js_trim contents) = None \<longrightarrow>
         w_onExit (WindowsPseudoterminal_on_exit wait (Inr contents) cleanup conCode signal s)
           = Resolved (code_or_signal conCode signal)) \<and>
      w_onExit (WindowsPseudoterminal_on_exit wait (Inl e) cleanup conCode signal s)
        = Resolved (code_or_signal conCode signal) \<and>
      w_console (WindowsPseudoterminal_on_exit wait (Inl e) Done conCode signal s)
        = w_console s @ [ConsoleDebug e] \<and>
      w_effects (WindowsPseudoterminal_on_exit wait answer cleanup conCode signal s)
        = w_effects s @ [ReadFile (w_codeTmp s), Sleep wait, Cleanup (w_codeTmp s)] \<and>
      w_onExit (WindowsPseudoterminal_on_exit wait answer (Thrown e') conCode signal s)
        = w_onExit (WindowsPseudoterminal_on_exit wait answer Done conCode signal s) \<and>
      w_console (WindowsPseudoterminal_on_exit wait answer (Thrown e') conCode signal s)
        = w_console (WindowsPseudoterminal_on_exit wait answer Done conCode signal s)
            @ [ConsoleWarn e']) \<and>
   code_or_signal (Some c) sig = ExitCode c \<and>
   code_or_signal None (Some g) = ExitSignal g \<and>
   code_or_signal None None = ExitNaN"
proof (intro conjI impI)
  assume a: "w_shell s = Inr p" "w_onExit s = Pending"
  show "w_onExit (WindowsPseudoterminal_on_exit wait (Inr (echo_ERRORLEVEL n)) cleanup conCode signal s)
        = Resolved (ExitCode n)"
    using a by (simp add: WindowsPseudoterminal_on_exit_def exit_code_of_def cleanup_task_def
        parse_echo resolve_def)
  show "w_onExit (WindowsPseudoterminal_on_exit wait (Inl e) cleanup conCode signal s)
        = Resolved (code_or_signal conCode signal)"
    using a by (simp add: WindowsPseudoterminal_on_exit_def exit_code_of_def cleanup_task_def
        resolve_def)
  show "w_console (WindowsPseudoterminal_on_exit wait (Inl e) Done conCode signal s)
        = w_console s @ [ConsoleDebug e]"
    using a by (simp add: WindowsPseudoterminal_on_exit_def exit_code_of_def cleanup_task_def)
  show "w_effects (WindowsPseudoterminal_on_exit wait answer cleanup conCode signal s)
        = w_effects s @ [ReadFile (w_codeTmp s), Sleep wait, Cleanup (w_codeTmp s)]"
    using a by (simp add: WindowsPseudoterminal_on_exit_def cleanup_task_def split_beta)
  show "w_onExit (WindowsPseudoterminal_on_exit wait answer (Thrown e') conCode signal s)
        = w_onExit (WindowsPseudoterminal_on_exit wait answer Done conCode signal s)"
    using a by (simp add: WindowsPseudoterminal_on_exit_def cleanup_task_def split_beta)
  show "w_console (WindowsPseudoterminal_on_exit wait answer (Thrown e') conCode signal s)
        = w_console (WindowsPseudoterminal_on_exit wait answer Done conCode signal s)
            @ [ConsoleWarn e']"
    using a by (simp add: WindowsPseudoterminal_on_exit_def cleanup_task_def split_beta)
  { assume "parseInt10 (js_trim contents) = Some n"
    then show "w_onExit (WindowsPseudoterminal_on_exit wait (Inr contents) cleanup conCode signal s)
           = Resolved (ExitCode n)"
      using a by (simp add: WindowsPseudoterminal_on_exit_def exit_code_of_def cleanup_task_def
          resolve_def) }
  { assume "parseInt10 (js_trim contents) = None"
    then show "w_onExit (WindowsPseudoterminal_on_exit wait (Inr contents) cleanup conCode signal s)
           = Resolved (code_or_signal conCode signal)"
      using a by (simp add: WindowsPseudoterminal_on_exit_def exit_code_of_def cleanup_task_def
          resolve_def) }
qed (simp_all add: code_or_signal_def)

theorem WindowsPseudoterminal_exit_code_witness:
  "w_shell windows0 = Inr (process0\<lparr>cp_stdio := [pipe0, Readable, Readable]\<rparr>) \<and>
   w_onExit windows0 = Pending \<and>
   parseInt10 (js_trim (''3 '' @ [CR, LF])) = Some 3 \<and>
   w_onExit (WindowsPseudoterminal_on_exit 5 (Inr (''3 '' @ [CR, LF])) Done (Some 0) None windows0)
     = Resolved (ExitCode 3) \<and>
   parseInt10 (js_trim ''ECHO is on.'') = None \<and>
   w_onExit (WindowsPseudoterminal_on_exit 5 (Inr ''ECHO is on.'') Done (Some 1) None windows0)
     = Resolved (ExitCode 1) \<and>
   w_onExit (WindowsPseudoterminal_on_exit 5 (Inl (Error ''ENOENT'')) Done None (Some ''SIGTERM'')
      windows0) = Resolved (ExitSignal ''SIGTERM'') \<and>
   w_effects (WindowsPseudoterminal_on_exit 5 (Inl (Error ''ENOENT'')) (Thrown (Error ''EBUSY''))
      None None windows0) = [ReadFile ''tmp'', Sleep 5, Cleanup ''tmp''] \<and>
   w_console (WindowsPseudoterminal_on_exit 5 (Inl (Error ''ENOENT'')) (Thrown (Error ''EBUSY''))
      None None windows0) = [ConsoleDebug (Error ''ENOENT''), ConsoleWarn (Error ''EBUSY'')]"
proof -
  have a: "w_shell windows0 = Inr (process0\<lparr>cp_stdio := [pipe0, Readable, Readable]\<rparr>)"
    "w_onExit windows0 = Pending" "w_effects windows0 = []" "w_console windows0 = []"
    "w_codeTmp windows0 = ''tmp''"
    by (simp_all add: windows0_def)
  note t = WindowsPseudoterminal_exit_code
    [where s = windows0 and p = "process0\<lparr>cp_stdio := [pipe0, Readable, Readable]\<rparr>"
       and wait = 5]
  show ?thesis
    using t [where contents = "''3 '' @ [CR, LF]" and n = 3 and cleanup = Done
          and conCode = "Some 0" and signal = None]
      t [where contents = "''ECHO is on.''" and cleanup = Done and conCode = "Some 1"
          and signal = None]
      t [where e = "Error ''ENOENT''" and cleanup = Done and conCode = None
          and signal = "Some ''SIGTERM''"]
      t [where e = "Error ''ENOENT''" and e' = "Error ''EBUSY''" and answer = "Inl (Error ''ENOENT'')"
          and conCode = None and signal = None]
      t [where c = 1 and g = "''SIGTERM''"]
      a parse_examples
    by simp
qed

text \<open>
  C7. For every two numbers \<^verbatim>\<open>columns\<close> and \<^verbatim>\<open>rows\<close>, on a Unix session whose process was
  spawned, whose fourth \<^verbatim>\<open>stdio\<close> entry is a writable stream and whose write does not
  fail, \<^verbatim>\<open>resize(columns, rows)\<close> answers normally and appends exactly one chunk to that
  stream, the line \<^verbatim>\<open><columns>x<rows>\n\<close> with each number as the template literal renders
  it; and in every case every other \<^verbatim>\<open>stdio\<close> entry, \<^verbatim>\<open>stdin\<close> and \<^verbatim>\<open>stdout\<close> among them,
  is as before the call. \<^verbatim>\<open>resize(80, 24)\<close> writes \<^verbatim>\<open>80x24\n\<close>.
\<close>

theorem UnixPseudoterminal_resize_line:
  "(u_shell s = Inr p \<longrightarrow> js_index (cp_stdio p) cmdio = Some (Writable st) \<longrightarrow>
    s_error st = None \<longrightarrow>
      fst (UnixPseudoterminal_resize rendered columns rows s) = Done \<and>
      stdio_of (snd (UnixPseudoterminal_resize rendered columns rows s)) cmdio =
        Some (Writable (st\<lparr>s_chunks := s_chunks st @
          [rendered columns @ ''x'' @ rendered rows @ [LF]]\<rparr>))) \<and>
   (i \<noteq> cmdio \<longrightarrow>
      stdio_of (snd (UnixPseudoterminal_resize rendered columns rows s)) i = stdio_of s i)"
proof (intro conjI impI)
  assume a: "u_shell s = Inr p" "js_index (cp_stdio p) cmdio = Some (Writable st)"
    "s_error st = None"
  then have len: "cmdio < length (cp_stdio p)"
    by (simp add: js_index_def split: if_splits)
  show "fst (UnixPseudoterminal_resize rendered columns rows s) = Done"
    using a by (simp add: UnixPseudoterminal_resize_def writePromise_def)
  show "stdio_of (snd (UnixPseudoterminal_resize rendered columns rows s)) cmdio =
        Some (Writable (st\<lparr>s_chunks := s_chunks st @
          [rendered columns @ ''x'' @ rendered rows @ [LF]]\<rparr>))"
    using a len
    by (simp add: UnixPseudoterminal_resize_def writePromise_def stdio_of_def js_index_update)
next
  assume "i \<noteq> cmdio"
  then show "stdio_of (snd (UnixPseudoterminal_resize rendered columns rows s)) i = stdio_of s i"
    by (auto simp add: UnixPseudoterminal_resize_def writePromise_def stdio_of_def js_index_update
        split: sum.splits option.splits stdio_stream.splits)
qed

theorem UnixPseudoterminal_resize_line_witness:
  "u_shell unix0 = Inr process0 \<and> js_index (cp_stdio process0) cmdio = Some pipe0 \<and>
   fst (UnixPseudoterminal_resize js_toString 80 24 unix0) = Done \<and>
   stdio_of (snd (UnixPseudoterminal_resize js_toString 80 24 unix0)) cmdio =
     Some (Writable \<lparr>s_chunks = [''80x24'' @ [LF]], s_error = None\<rparr>) \<and>
   stdio_of (snd (UnixPseudoterminal_resize js_toString 80 24 unix0)) 0 = Some pipe0 \<and>
   stdio_of (snd (UnixPseudoterminal_resize js_toString 80 24 unix0)) 1 = Some Readable"
proof -
  have a: "u_shell unix0 = Inr process0" "js_index (cp_stdio process0) cmdio = Some pipe0"
    "pipe0 = Writable \<lparr>s_chunks = [], s_error = None\<rparr>"
    "stdio_of unix0 0 = Some pipe0" "stdio_of unix0 1 = Some Readable"
    by (simp_all add: unix0_def process0_def js_index_def cmdio_def pipe0_def stdio_of_def)
  have c: "(0::nat) \<noteq> cmdio" "(1::nat) \<noteq> cmdio"
    by (simp_all add: cmdio_def)
  show ?thesis
    using UnixPseudoterminal_resize_line [where s = unix0 and p = process0
        and st = "\<lparr>s_chunks = [], s_error = None\<rparr>" and rendered = js_toString
        and columns = 80 and rows = 24 and i = 0]
      UnixPseudoterminal_resize_line [where s = unix0 and rendered = js_toString
        and columns = 80 and rows = 24 and i = 1]
      a c
    by (simp add: js_toString_80_24)
qed

section \<open>Properties of the debounced resize\<close>










end
